theory Spec2Isabelle
  imports Complex_Main
begin

section \<open>Python values used by the two translated modules\<close>

text \<open>
  The development covers \<^verbatim>\<open>plenario/api/sensor.py\<close> (\<^verbatim>\<open>make_query\<close>) and
  \<^verbatim>\<open>plenario/sensor_network/api/sensor_aggregate_functions.py\<close>. Exceptions are
  values: every function of the source that can raise returns \<open>error + 'a\<close>, with
  \<open>Inl\<close> for the exception. The text carried by \<open>ValueError\<close> is the message the
  source passes; for a \<open>ValueError\<close> raised by a library the text is indicative only.
\<close>

datatype error =
    ValueError string
  | TypeError
  | KeyError
  | IndexError
  | AttributeError
  | OverflowError

subsection \<open>Strings\<close>

text \<open>
  A Python string is the list of its characters, and a character is a code point below
  256 (the type \<open>char\<close>): the text of Latin-1, a type that leaves out the characters
  beyond.
\<close>

text \<open>\<^verbatim>\<open>s.startswith(p)\<close>, \<^verbatim>\<open>s.endswith(p)\<close> and \<^verbatim>\<open>p in s\<close> on strings.\<close>

fun startswith :: "string \<Rightarrow> string \<Rightarrow> bool" where
  "startswith s [] = True"
| "startswith [] (p # ps) = False"
| "startswith (c # cs) (p # ps) = (c = p \<and> startswith cs ps)"

definition endswith :: "string \<Rightarrow> string \<Rightarrow> bool" where
  "endswith s p = startswith (rev s) (rev p)"

fun str_contains :: "string \<Rightarrow> string \<Rightarrow> bool" where
  "str_contains [] p = (p = [])"
| "str_contains (c # cs) p = (startswith (c # cs) p \<or> str_contains cs p)"

text \<open>
  \<^verbatim>\<open>s.split(sep)\<close> for a non-empty separator: the string is scanned from the left, and
  every non-overlapping occurrence of \<open>sep\<close> ends a part. The result always has at
  least one part. (Python raises on an empty separator; the source only ever passes the
  literals \<^verbatim>\<open>'__'\<close>, \<^verbatim>\<open>','\<close>, \<^verbatim>\<open>'.'\<close>, \<^verbatim>\<open>'+'\<close> and \<^verbatim>\<open>'_'\<close>.)
\<close>

function split_from :: "string \<Rightarrow> string \<Rightarrow> string \<Rightarrow> string list" where
  "split_from sep part [] = [part]"
| "split_from sep part (c # cs) =
     (if startswith (c # cs) sep
      then part # split_from sep [] (drop (length sep - 1) cs)
      else split_from sep (part @ [c]) cs)"
  by pat_completeness auto
termination
  by (relation "measure (\<lambda>(sep, part, s). length s)") auto

definition split :: "string \<Rightarrow> string \<Rightarrow> string list" where
  "split s sep = split_from sep [] s"

text \<open>
  \<^verbatim>\<open>s.lower()\<close>: the letters \<^verbatim>\<open>A\<close> to \<^verbatim>\<open>Z\<close>, and the capital letters of Latin-1 (code
  points C0 to DE without the multiplication sign D7), move up by 32.
\<close>

definition upper_letters :: string where
  "upper_letters = ''ABCDEFGHIJKLMNOPQRSTUVWXYZ'' @
     [CHR 0xC0, CHR 0xC1, CHR 0xC2, CHR 0xC3, CHR 0xC4, CHR 0xC5, CHR 0xC6, CHR 0xC7,
      CHR 0xC8, CHR 0xC9, CHR 0xCA, CHR 0xCB, CHR 0xCC, CHR 0xCD, CHR 0xCE, CHR 0xCF,
      CHR 0xD0, CHR 0xD1, CHR 0xD2, CHR 0xD3, CHR 0xD4, CHR 0xD5, CHR 0xD6,
      CHR 0xD8, CHR 0xD9, CHR 0xDA, CHR 0xDB, CHR 0xDC, CHR 0xDD, CHR 0xDE]"

definition lower_letters :: string where
  "lower_letters = ''abcdefghijklmnopqrstuvwxyz'' @
     [CHR 0xE0, CHR 0xE1, CHR 0xE2, CHR 0xE3, CHR 0xE4, CHR 0xE5, CHR 0xE6, CHR 0xE7,
      CHR 0xE8, CHR 0xE9, CHR 0xEA, CHR 0xEB, CHR 0xEC, CHR 0xED, CHR 0xEE, CHR 0xEF,
      CHR 0xF0, CHR 0xF1, CHR 0xF2, CHR 0xF3, CHR 0xF4, CHR 0xF5, CHR 0xF6,
      CHR 0xF8, CHR 0xF9, CHR 0xFA, CHR 0xFB, CHR 0xFC, CHR 0xFD, CHR 0xFE]"

definition lower_char :: "char \<Rightarrow> char" where
  "lower_char c =
     (case map_of (zip upper_letters lower_letters) c of
        Some l \<Rightarrow> l
      | None \<Rightarrow> c)"

definition lower :: "string \<Rightarrow> string" where
  "lower s = map lower_char s"

text \<open>
  \<^verbatim>\<open>repr(s)\<close> of a string, as \<^verbatim>\<open>'{!r}'.format(s)\<close> renders it: single quotes unless the
  text holds a single quote and no double quote; the backslash and the chosen quote are
  escaped with a backslash, the tab, newline and return characters are written
  \<^verbatim>\<open>\t\<close>, \<^verbatim>\<open>\n\<close> and \<^verbatim>\<open>\r\<close>, and every other character that is not printable is written
  \<^verbatim>\<open>\xNN\<close> with its code in two lower-case hexadecimal digits. Below 256 the printable
  characters (\<^verbatim>\<open>str.isprintable\<close>) are the codes 20 to 7E and A1 to FF without the soft
  hyphen AD.
\<close>

definition squote :: char where "squote = CHR 0x27"
definition dquote :: char where "dquote = CHR 0x22"
definition backslash :: char where "backslash = CHR 0x5C"

definition printable :: "char \<Rightarrow> bool" where
  "printable c =
     (let n = (of_char c :: nat) in (32 \<le> n \<and> n < 127) \<or> (161 \<le> n \<and> n \<noteq> 173))"

definition hexdigit :: "nat \<Rightarrow> char" where
  "hexdigit n = ''0123456789abcdef'' ! n"

definition repr_char :: "char \<Rightarrow> char \<Rightarrow> string" where
  "repr_char q c =
     (if c = backslash then [backslash, backslash]
      else if c = q then [backslash, q]
      else if c = CHR 0x09 then [backslash, CHR ''t'']
      else if c = CHR 0x0A then [backslash, CHR ''n'']
      else if c = CHR 0x0D then [backslash, CHR ''r'']
      else if printable c then [c]
      else [backslash, CHR ''x'', hexdigit (of_char c div 16), hexdigit (of_char c mod 16)])"

definition repr :: "string \<Rightarrow> string" where
  "repr s =
     (let q = (if squote \<in> set s \<and> dquote \<notin> set s then dquote else squote)
      in [q] @ concat (map (repr_char q) s) @ [q])"


section \<open>The filter translator: \<^verbatim>\<open>make_query\<close>\<close>

subsection \<open>JSON values\<close>

text \<open>
  What \<^verbatim>\<open>json.loads\<close> returns. A number keeps its literal text; an object is the list
  of its items in order, read with \<open>map_of\<close>.
\<close>

datatype json =
    JNull
  | JBool bool
  | JNumber string
  | JString string
  | JArray "json list"
  | JObject "(string \<times> json) list"

text \<open>\<^verbatim>\<open>v[key]\<close> with a string key, \<^verbatim>\<open>v[0]\<close>, \<^verbatim>\<open>list(v.keys())\<close> and \<^verbatim>\<open>v[key] = x\<close>.\<close>

fun getitem :: "json \<Rightarrow> string \<Rightarrow> error + json" where
  "getitem (JObject items) key =
     (case map_of items key of None \<Rightarrow> Inl KeyError | Some v \<Rightarrow> Inr v)"
| "getitem v key = Inl TypeError"

fun getitem0 :: "json \<Rightarrow> error + json" where
  "getitem0 (JArray []) = Inl IndexError"
| "getitem0 (JArray (v # vs)) = Inr v"
| "getitem0 (JString []) = Inl IndexError"
| "getitem0 (JString (c # cs)) = Inr (JString [c])"
| "getitem0 (JObject items) = Inl KeyError"
| "getitem0 v = Inl TypeError"

fun json_keys :: "json \<Rightarrow> error + string list" where
  "json_keys (JObject items) = Inr (map fst items)"
| "json_keys v = Inl AttributeError"

fun dict_set :: "string \<Rightarrow> 'v \<Rightarrow> (string \<times> 'v) list \<Rightarrow> (string \<times> 'v) list" where
  "dict_set k v [] = [(k, v)]"
| "dict_set k v ((k', v') # items) =
     (if k' = k then (k, v) # items else (k', v') # dict_set k v items)"

fun setitem :: "json \<Rightarrow> string \<Rightarrow> json \<Rightarrow> error + json" where
  "setitem (JObject items) key x = Inr (JObject (dict_set key x items))"
| "setitem v key x = Inl TypeError"

subsection \<open>Tables, clauses and the libraries the translator calls\<close>

text \<open>
  A reflected table is the list of its columns. Of a column the translator uses the
  name and the answers of \<^verbatim>\<open>hasattr(column, name)\<close>: \<open>attrs\<close> lists the names that
  are attributes of the column object. Which names those are is decided by SQLAlchemy
  and the column's type, outside the repository, so they are data of the model.
\<close>

record column =
  name :: string
  attrs :: "string list"

type_synonym table = "column list"

definition table_keys :: "table \<Rightarrow> string list" where
  "table_keys t = map name t"

definition columns_get :: "table \<Rightarrow> string \<Rightarrow> column option" where
  "columns_get t field = find (\<lambda>c. name c = field) t"

definition hasattr :: "column \<Rightarrow> string \<Rightarrow> bool" where
  "hasattr c a = (a \<in> set (attrs c))"

text \<open>
  The clause objects that \<^verbatim>\<open>make_query\<close> builds, kept symbolic:
  \<^item> \<open>Col_in c vs\<close> is \<^verbatim>\<open>column.in_(vs)\<close>;
  \<^item> \<open>ST_Within c g\<close> is \<^verbatim>\<open>column.ST_Within(func.ST_GeomFromGeoJSON(json.dumps(g)))\<close>;
  \<^item> \<open>Hour_ge c v\<close> and \<open>Hour_le c v\<close> are \<^verbatim>\<open>func.date_part('hour', column).__ge__(v)\<close>
    and \<^verbatim>\<open>.__le__(v)\<close>;
  \<^item> \<open>Call c a v\<close> is \<^verbatim>\<open>getattr(column, a)(v)\<close>, with \<open>None\<close> for Python's \<^verbatim>\<open>None\<close>.
\<close>

datatype clause =
    Col_in column "string list"
  | ST_Within column json
  | Hour_ge column "string option"
  | Hour_le column "string option"
  | Call column string "string option"

text \<open>
  The calls that leave the repository, as parameters of the translation:
  \<^item> \<^verbatim>\<open>json.loads(text)\<close>;
  \<^item> \<^verbatim>\<open>shapely.geometry.asShape(val).centroid.y\<close>, a floating-point number, here a real;
  \<^item> \<^verbatim>\<open>asShape(val).buffer(d).__geo_interface__\<close>;
  \<^item> \<^verbatim>\<open>getattr(column, attr)(query_value)\<close>, where SQLAlchemy decides what the attribute
    does with one argument: \<open>call_attribute lib column attr v\<close> is \<open>None\<close> when the call
    returns an object, which is then kept as the clause \<open>Call column attr v\<close>, and \<open>Some e\<close>
    when it raises \<open>e\<close>, as calling an attribute that is no method does (a string such
    as \<^verbatim>\<open>column.name\<close> raises \<^verbatim>\<open>TypeError\<close>).
\<close>

record libraries =
  json_loads :: "string \<Rightarrow> error + json"
  centroid_y :: "json \<Rightarrow> error + real"
  buffer :: "json \<Rightarrow> real \<Rightarrow> error + json"
  call_attribute :: "column \<Rightarrow> string \<Rightarrow> string option \<Rightarrow> error option"

text \<open>
  Modelled from the spec: \<^verbatim>\<open>get_size_in_degrees\<close> of \<^verbatim>\<open>plenario.utils.helpers\<close>, which the
  translator imports and which is not among the sources. The specification says of it
  that it converts a physical distance in meters ``to an equivalent angular distance at
  that latitude (accounting for latitude-dependent degree-to-meter scaling)''; the
  translator unpacks the result into \<^verbatim>\<open>x, y\<close>. A degree along a meridian is the 360th part
  of the circumference of the Earth, and a degree along a parallel is shorter by the
  cosine of the latitude; the circumference is taken as 40 041 km. Floating-point numbers
  are real numbers here.
\<close>

definition get_size_in_degrees :: "real \<Rightarrow> real \<Rightarrow> real \<times> real" where
  "get_size_in_degrees meters latitude =
     (let earth_circumference = 40041000;
          degrees_per_meter = 360 / earth_circumference;
          degrees_y = meters * degrees_per_meter;
          degrees_x = degrees_y / cos (latitude * (pi / 180))
      in (degrees_x, degrees_y))"

subsection \<open>The request parameters\<close>

text \<open>
  \<^verbatim>\<open>raw_query_params\<close> is a multi-dictionary of strings: \<^verbatim>\<open>keys()\<close> gives each key once,
  in order of first appearance, and \<^verbatim>\<open>get(key)\<close> the first value stored under the key.
\<close>

type_synonym params = "(string \<times> string) list"

definition keys :: "params \<Rightarrow> string list" where
  "keys raw_query_params = rev (remdups (rev (map fst raw_query_params)))"

definition get :: "params \<Rightarrow> string \<Rightarrow> string option" where
  "get raw_query_params key = map_of raw_query_params key"

text \<open>\<^verbatim>\<open>if key in args_keys: args_keys.remove(key)\<close>, for the four reserved keys.\<close>

definition args_keys :: "params \<Rightarrow> string list" where
  "args_keys raw_query_params =
     remove1 ''weather'' (remove1 ''order_by'' (remove1 ''limit''
       (remove1 ''offset'' (keys raw_query_params))))"

subsection \<open>The translation\<close>

text \<open>
  What \<^verbatim>\<open>make_query\<close> returns: the tuple
  \<^verbatim>\<open>(valid_query, query_clauses, resp, status_code)\<close>, where \<^verbatim>\<open>resp\<close> is the dictionary
  \<^verbatim>\<open>{'meta': {'status': .., 'message': ..}, 'objects': []}\<close>. A clause list entry is
  \<open>None\<close> where the source appends Python's \<^verbatim>\<open>None\<close>.
\<close>

record resp =
  meta_status :: string
  meta_message :: string
  objects :: "json list"

record query =
  valid_query :: bool
  query_clauses :: "clause option list"
  resp :: resp
  status_code :: int

text \<open>
  \<^verbatim>\<open>field, operator = query_param.split('__')\<close>, with the \<^verbatim>\<open>ValueError\<close> of the
  unpacking caught: any number of parts other than two gives the whole key and \<^verbatim>\<open>'eq'\<close>.
\<close>

definition split_param :: "string \<Rightarrow> string \<times> string" where
  "split_param query_param =
     (case split query_param ''__'' of
        [field, operator] \<Rightarrow> (field, operator)
      | _ \<Rightarrow> (query_param, ''eq''))"

text \<open>One pass of the loop body ends in the next iteration, in \<^verbatim>\<open>break\<close> or in an exception.\<close>

datatype outcome = Continue query | Break query | Raise error

definition append_clause :: "query \<Rightarrow> clause option \<Rightarrow> query" where
  "append_clause q c = q\<lparr>query_clauses := query_clauses q @ [c]\<rparr>"

definition invalidate :: "query \<Rightarrow> string \<Rightarrow> query" where
  "invalidate q msg =
     q\<lparr>resp := (resp q)\<lparr>meta_message := msg\<rparr>, status_code := 400, valid_query := False\<rparr>"

text \<open>The \<^verbatim>\<open>within\<close> branch, from \<^verbatim>\<open>json.loads\<close> to the geometry handed to \<^verbatim>\<open>ST_Within\<close>.\<close>

definition crs :: json where
  "crs = JObject [(''type'', JString ''name''),
                  (''properties'', JObject [(''name'', JString ''EPSG:4326'')])]"

text \<open>
  The geometry that the filter names: that of the first feature of a feature collection,
  that of a feature, or the value itself.
\<close>

definition resolved_geometry :: "json \<Rightarrow> error + json" where
  "resolved_geometry geo =
     (case json_keys geo of
        Inl e \<Rightarrow> Inl e
      | Inr ks \<Rightarrow>
          if ''features'' \<in> set ks
          then (case getitem geo ''features'' of
                  Inl e \<Rightarrow> Inl e
                | Inr fs \<Rightarrow>
                    (case getitem0 fs of
                       Inl e \<Rightarrow> Inl e
                     | Inr f \<Rightarrow> getitem f ''geometry''))
          else if ''geometry'' \<in> set ks then getitem geo ''geometry''
          else Inr geo)"

definition within_geometry :: "libraries \<Rightarrow> string option \<Rightarrow> error + json" where
  "within_geometry lib query_value =
     (case query_value of
        None \<Rightarrow> Inl TypeError
      | Some text \<Rightarrow>
     (case json_loads lib text of
        Inl e \<Rightarrow> Inl e
      | Inr geo \<Rightarrow>
     (case resolved_geometry geo of
        Inl e \<Rightarrow> Inl e
      | Inr val \<Rightarrow>
     (case getitem val ''type'' of
        Inl e \<Rightarrow> Inl e
      | Inr ty \<Rightarrow>
     (case (if ty = JString ''LineString''
            then (case centroid_y lib val of
                    Inl e \<Rightarrow> Inl e
                  | Inr lat \<Rightarrow>
                      (case get_size_in_degrees 100 lat of
                         (x, y) \<Rightarrow> buffer lib val y))
            else Inr val) of
        Inl e \<Rightarrow> Inl e
      | Inr val' \<Rightarrow> setitem val' ''crs'' crs)))))"

text \<open>
  The end of the last branch, once the attribute is found: the value \<^verbatim>\<open>'null'\<close> becomes
  \<^verbatim>\<open>None\<close>, the attribute is called with the value, and what it returns is appended.
\<close>

definition call_operator ::
  "libraries \<Rightarrow> query \<Rightarrow> column \<Rightarrow> string \<Rightarrow> string option \<Rightarrow> outcome" where
  "call_operator lib q col attr query_value =
     (let query_value' = (if query_value = Some ''null'' then None else query_value)
      in case call_attribute lib col attr query_value' of
           Some e \<Rightarrow> Raise e
         | None \<Rightarrow> Continue (append_clause q (Some (Call col attr query_value'))))"

text \<open>
  The loop body for one key. The branches are those of the source, in its order:
  unknown field, \<^verbatim>\<open>in\<close>, \<^verbatim>\<open>within\<close>, \<^verbatim>\<open>time_of_day...\<close>, and the lookup of the operator
  among the column's attributes under the three spellings \<^verbatim>\<open>op\<close>, \<^verbatim>\<open>op_\<close>, \<^verbatim>\<open>__op__\<close>,
  the first of which that exists is called with the value.
\<close>

definition translate_param ::
  "libraries \<Rightarrow> table \<Rightarrow> params \<Rightarrow> query \<Rightarrow> string \<Rightarrow> outcome" where
  "translate_param lib table raw_query_params q query_param =
     (case split_param query_param of (field, operator) \<Rightarrow>
      let query_value = get raw_query_params query_param;
          column = columns_get table field
      in if field \<notin> set (table_keys table)
         then Continue (invalidate q (repr field @ '' is not a valid field name''))
         else (case column of
           None \<Rightarrow> Raise AttributeError
         | Some col \<Rightarrow>
             if operator = ''in'' then
               (case query_value of
                  None \<Rightarrow> Raise AttributeError
                | Some v \<Rightarrow>
                    if hasattr col ''in_''
                    then Continue (append_clause q (Some (Col_in col (split v '',''))))
                    else Raise AttributeError)
             else if operator = ''within'' then
               (case within_geometry lib query_value of
                  Inl e \<Rightarrow> Raise e
                | Inr val \<Rightarrow>
                    if hasattr col ''ST_Within''
                    then Continue (append_clause q (Some (ST_Within col val)))
                    else Raise AttributeError)
             else if startswith operator ''time_of_day'' then
               Continue (append_clause q
                 (if endswith operator ''ge'' then Some (Hour_ge col query_value)
                  else if endswith operator ''le'' then Some (Hour_le col query_value)
                  else None))
             else
               (case filter (hasattr col)
                       [operator, operator @ ''_'', ''__'' @ operator @ ''__''] of
                  [] \<Rightarrow> Break (invalidate q (repr operator @ '' is not a valid query operator''))
                | attr # _ \<Rightarrow> call_operator lib q col attr query_value)))"

fun scan :: "libraries \<Rightarrow> table \<Rightarrow> params \<Rightarrow> query \<Rightarrow> string list \<Rightarrow> error + query" where
  "scan lib table raw_query_params q [] = Inr q"
| "scan lib table raw_query_params q (query_param # rest) =
     (case translate_param lib table raw_query_params q query_param of
        Continue q' \<Rightarrow> scan lib table raw_query_params q' rest
      | Break q' \<Rightarrow> Inr q'
      | Raise e \<Rightarrow> Inl e)"

definition initial_query :: query where
  "initial_query =
     \<lparr>valid_query = True, query_clauses = [],
      resp = \<lparr>meta_status = ''error'', meta_message = '''', objects = []\<rparr>,
      status_code = 200\<rparr>"

definition make_query :: "libraries \<Rightarrow> table \<Rightarrow> params \<Rightarrow> error + query" where
  "make_query lib table raw_query_params =
     scan lib table raw_query_params initial_query (args_keys raw_query_params)"

section \<open>Datetimes\<close>

text \<open>
  A \<^verbatim>\<open>datetime.datetime\<close> object: the seven calendar fields, and \<open>tzinfo\<close> as the offset
  from UTC in minutes, \<open>None\<close> for a naive value. Python only ever builds objects that
  satisfy \<open>valid_datetime\<close>: the constructor and \<^verbatim>\<open>replace\<close> raise \<^verbatim>\<open>ValueError\<close> otherwise.
\<close>

record datetime =
  year :: int
  month :: int
  day :: int
  hour :: int
  minute :: int
  second :: int
  microsecond :: int
  tzinfo :: "int option"

text \<open>\<^verbatim>\<open>calendar.isleap\<close> and the month lengths of \<^verbatim>\<open>calendar.monthrange\<close>.\<close>

definition isleap :: "int \<Rightarrow> bool" where
  "isleap y = (y mod 4 = 0 \<and> (y mod 100 \<noteq> 0 \<or> y mod 400 = 0))"

definition days_in_month :: "int \<Rightarrow> int \<Rightarrow> int" where
  "days_in_month y m =
     (if m = 2 then (if isleap y then 29 else 28)
      else if m = 4 \<or> m = 6 \<or> m = 9 \<or> m = 11 then 30
      else 31)"

definition valid_datetime :: "datetime \<Rightarrow> bool" where
  "valid_datetime dt =
     (1 \<le> year dt \<and> year dt \<le> 9999 \<and>
      1 \<le> month dt \<and> month dt \<le> 12 \<and>
      1 \<le> day dt \<and> day dt \<le> days_in_month (year dt) (month dt) \<and>
      0 \<le> hour dt \<and> hour dt < 24 \<and>
      0 \<le> minute dt \<and> minute dt < 60 \<and>
      0 \<le> second dt \<and> second dt < 60 \<and>
      0 \<le> microsecond dt \<and> microsecond dt < 1000000)"

text \<open>
  \<^verbatim>\<open>dt.replace(**{unit: v})\<close> for one of the seven field names: the new object is built by
  the constructor, which checks every field.
\<close>

definition set_field :: "string \<Rightarrow> int \<Rightarrow> datetime \<Rightarrow> datetime option" where
  "set_field unit v dt =
     (if unit = ''year'' then Some (dt\<lparr>year := v\<rparr>)
      else if unit = ''month'' then Some (dt\<lparr>month := v\<rparr>)
      else if unit = ''day'' then Some (dt\<lparr>day := v\<rparr>)
      else if unit = ''hour'' then Some (dt\<lparr>hour := v\<rparr>)
      else if unit = ''minute'' then Some (dt\<lparr>minute := v\<rparr>)
      else if unit = ''second'' then Some (dt\<lparr>second := v\<rparr>)
      else if unit = ''microsecond'' then Some (dt\<lparr>microsecond := v\<rparr>)
      else None)"

definition replace :: "datetime \<Rightarrow> string \<Rightarrow> int \<Rightarrow> error + datetime" where
  "replace dt unit v =
     (case set_field unit v dt of
        None \<Rightarrow> Inl TypeError
      | Some dt' \<Rightarrow>
          if valid_datetime dt' then Inr dt' else Inl (ValueError ''value out of range''))"

text \<open>\<^verbatim>\<open>dt.replace(tzinfo=None)\<close>.\<close>

definition replace_tzinfo_None :: "datetime \<Rightarrow> datetime" where
  "replace_tzinfo_None dt = dt\<lparr>tzinfo := None\<rparr>"

text \<open>
  Ordering of naive datetimes: Python compares the tuples of the seven fields, from the
  year down.
\<close>

definition cmp_key :: "datetime \<Rightarrow> int list" where
  "cmp_key dt =
     [year dt, month dt, day dt, hour dt, minute dt, second dt, microsecond dt]"

fun tuple_lt :: "int list \<Rightarrow> int list \<Rightarrow> bool" where
  "tuple_lt [] [] = False"
| "tuple_lt [] (y # ys) = True"
| "tuple_lt (x # xs) [] = False"
| "tuple_lt (x # xs) (y # ys) = (x < y \<or> (x = y \<and> tuple_lt xs ys))"

definition datetime_lt :: "datetime \<Rightarrow> datetime \<Rightarrow> bool" where
  "datetime_lt a b = tuple_lt (cmp_key a) (cmp_key b)"

definition datetime_le :: "datetime \<Rightarrow> datetime \<Rightarrow> bool" where
  "datetime_le a b = (\<not> tuple_lt (cmp_key b) (cmp_key a))"

subsection \<open>Adding a \<^verbatim>\<open>timedelta\<close>\<close>

text \<open>
  A \<^verbatim>\<open>timedelta\<close> is represented by its length in microseconds. \<open>timedelta_1 kw\<close> is
  \<^verbatim>\<open>timedelta(**{kw: 1})\<close>, which raises \<^verbatim>\<open>TypeError\<close> (here \<open>None\<close>) for any keyword other
  than the seven below.
\<close>

definition timedelta_1 :: "string \<Rightarrow> int option" where
  "timedelta_1 kw =
     (if kw = ''days'' then Some 86400000000
      else if kw = ''seconds'' then Some 1000000
      else if kw = ''microseconds'' then Some 1
      else if kw = ''milliseconds'' then Some 1000
      else if kw = ''minutes'' then Some 60000000
      else if kw = ''hours'' then Some 3600000000
      else if kw = ''weeks'' then Some 604800000000
      else None)"

text \<open>The day after and the day before a date of the proleptic Gregorian calendar.\<close>

fun next_day :: "int \<times> int \<times> int \<Rightarrow> int \<times> int \<times> int" where
  "next_day (y, m, d) =
     (if d < days_in_month y m then (y, m, d + 1)
      else if m < 12 then (y, m + 1, 1)
      else (y + 1, 1, 1))"

fun prev_day :: "int \<times> int \<times> int \<Rightarrow> int \<times> int \<times> int" where
  "prev_day (y, m, d) =
     (if 1 < d then (y, m, d - 1)
      else if 1 < m then (y, m - 1, days_in_month y (m - 1))
      else (y - 1, 12, 31))"

definition shift_days :: "int \<Rightarrow> int \<times> int \<times> int \<Rightarrow> int \<times> int \<times> int" where
  "shift_days n date =
     (if 0 \<le> n then (next_day ^^ nat n) date else (prev_day ^^ nat (- n)) date)"

definition time_of_day :: "datetime \<Rightarrow> int" where
  "time_of_day dt =
     ((hour dt * 60 + minute dt) * 60 + second dt) * 1000000 + microsecond dt"

text \<open>
  \<^verbatim>\<open>dt + td\<close>: the time of day and the delta are added, whole days are carried into the
  date, and a result outside the years 1 to 9999 raises \<^verbatim>\<open>OverflowError\<close>. The time zone
  is kept.
\<close>

definition add_timedelta :: "datetime \<Rightarrow> int \<Rightarrow> error + datetime" where
  "add_timedelta dt td =
     (let total = time_of_day dt + td;
          t = total mod 86400000000
      in case shift_days (total div 86400000000) (year dt, month dt, day dt) of
           (y, m, d) \<Rightarrow>
             if 1 \<le> y \<and> y \<le> 9999
             then Inr (dt\<lparr>year := y, month := m, day := d,
                          hour := t div 3600000000,
                          minute := t div 60000000 mod 60,
                          second := t div 1000000 mod 60,
                          microsecond := t mod 1000000\<rparr>)
             else Inl OverflowError)"

subsection \<open>Adding a \<^verbatim>\<open>relativedelta\<close>\<close>

text \<open>
  \<^verbatim>\<open>dateutil.relativedelta.relativedelta(**{kw: 1})\<close>: relative years, months and leap
  days, and in \<open>micros\<close> the microseconds of the relative days, weeks, hours, minutes,
  seconds and microseconds. Any other plural keyword raises \<^verbatim>\<open>TypeError\<close>.
\<close>

record relativedelta =
  years :: int
  months :: int
  leapdays :: int
  micros :: int

definition relativedelta_1 :: "string \<Rightarrow> relativedelta option" where
  "relativedelta_1 kw =
     (if kw = ''years'' then Some \<lparr>years = 1, months = 0, leapdays = 0, micros = 0\<rparr>
      else if kw = ''months'' then Some \<lparr>years = 0, months = 1, leapdays = 0, micros = 0\<rparr>
      else if kw = ''leapdays'' then Some \<lparr>years = 0, months = 0, leapdays = 1, micros = 0\<rparr>
      else if kw = ''milliseconds'' then None
      else (case timedelta_1 kw of
              Some td \<Rightarrow> Some \<lparr>years = 0, months = 0, leapdays = 0, micros = td\<rparr>
            | None \<Rightarrow> None))"

text \<open>
  \<^verbatim>\<open>dt + rd\<close>, as \<^verbatim>\<open>relativedelta.__radd__\<close> computes it: the year and the month are moved,
  the day is cut down to the length of the new month, the three fields are set with
  \<^verbatim>\<open>replace\<close> (\<^verbatim>\<open>ValueError\<close> when the year leaves 1 to 9999), and the rest is added as a
  \<^verbatim>\<open>timedelta\<close>; a leap day counts only after February of a leap year.
\<close>

definition add_relativedelta :: "datetime \<Rightarrow> relativedelta \<Rightarrow> error + datetime" where
  "add_relativedelta dt rd =
     (let y0 = year dt + years rd;
          m0 = month dt + months rd;
          y = (if months rd \<noteq> 0 \<and> 12 < m0 then y0 + 1
               else if months rd \<noteq> 0 \<and> m0 < 1 then y0 - 1 else y0);
          m = (if months rd \<noteq> 0 \<and> 12 < m0 then m0 - 12
               else if months rd \<noteq> 0 \<and> m0 < 1 then m0 + 12 else m0);
          d = min (days_in_month y m) (day dt);
          dt' = dt\<lparr>year := y, month := m, day := d\<rparr>;
          days = (if leapdays rd \<noteq> 0 \<and> 2 < m \<and> isleap y then leapdays rd else 0)
      in if valid_datetime dt'
         then add_timedelta dt' (days * 86400000000 + micros rd)
         else Inl (ValueError ''value out of range''))"

subsection \<open>\<^verbatim>\<open>isoformat\<close>\<close>

text \<open>
  \<^verbatim>\<open>dt.isoformat()\<close>: \<^verbatim>\<open>YYYY-MM-DDTHH:MM:SS\<close>, then \<^verbatim>\<open>.ffffff\<close> when the microsecond is not
  zero, then the offset \<^verbatim>\<open>+HH:MM\<close> or \<^verbatim>\<open>-HH:MM\<close> of an aware value. \<open>zfill w n\<close> writes \<open>n\<close>
  in \<open>w\<close> decimal digits.
\<close>

definition digit :: "nat \<Rightarrow> char" where
  "digit n = ''0123456789'' ! (n mod 10)"

definition zfill :: "nat \<Rightarrow> int \<Rightarrow> string" where
  "zfill w n = map (\<lambda>i. digit (nat n div 10 ^ (w - 1 - i))) [0..<w]"

definition isoformat :: "datetime \<Rightarrow> string" where
  "isoformat dt =
     zfill 4 (year dt) @ ''-'' @ zfill 2 (month dt) @ ''-'' @ zfill 2 (day dt) @ ''T'' @
     zfill 2 (hour dt) @ '':'' @ zfill 2 (minute dt) @ '':'' @ zfill 2 (second dt) @
     (if microsecond dt \<noteq> 0 then ''.'' @ zfill 6 (microsecond dt) else '''') @
     (case tzinfo dt of
        None \<Rightarrow> ''''
      | Some off \<Rightarrow>
          (if off < 0 then ''-'' else ''+'') @
          zfill 2 (\<bar>off\<bar> div 60) @ '':'' @ zfill 2 (\<bar>off\<bar> mod 60))"

section \<open>The aggregation engine\<close>

subsection \<open>\<^verbatim>\<open>_zero_out_datetime\<close>\<close>

definition units :: "string list" where
  "units = [''year'', ''month'', ''day'', ''hour'', ''minute'', ''second'', ''microsecond'']"

text \<open>\<^verbatim>\<open>xs.index(x)\<close>, with \<open>None\<close> for the \<^verbatim>\<open>ValueError\<close> of an absent element.\<close>

fun index :: "'a list \<Rightarrow> 'a \<Rightarrow> nat option" where
  "index [] x = None"
| "index (y # ys) x = (if y = x then Some 0 else map_option Suc (index ys x))"

text \<open>
  The loop over \<^verbatim>\<open>units[i:]\<close>: each field is set to zero with \<^verbatim>\<open>replace\<close>, and a
  \<^verbatim>\<open>ValueError\<close> is passed over, the datetime staying as it was.
\<close>

fun zero_loop :: "datetime \<Rightarrow> string list \<Rightarrow> error + datetime" where
  "zero_loop dt [] = Inr dt"
| "zero_loop dt (zeroing_unit # rest) =
     (case replace dt zeroing_unit 0 of
        Inr dt' \<Rightarrow> zero_loop dt' rest
      | Inl (ValueError msg) \<Rightarrow> zero_loop dt rest
      | Inl e \<Rightarrow> Inl e)"

definition zero_out_datetime :: "datetime \<Rightarrow> string \<Rightarrow> error + datetime" where
  "zero_out_datetime dt unit =
     (case index units unit of
        None \<Rightarrow> Inl (ValueError (repr unit @ '' is not in list''))
      | Some i \<Rightarrow> zero_loop dt (drop (i + 1) units))"

subsection \<open>\<^verbatim>\<open>_generate_datetime_range\<close>\<close>

text \<open>
  One pass of the loop body after the \<^verbatim>\<open>append\<close>: the \<^verbatim>\<open>timedelta\<close> of one unit is added,
  and when \<^verbatim>\<open>timedelta\<close> rejects the keyword (\<^verbatim>\<open>TypeError\<close>) the \<^verbatim>\<open>relativedelta\<close> of one
  unit is added instead. A \<^verbatim>\<open>TypeError\<close> of \<^verbatim>\<open>relativedelta\<close>, and the overflow of either
  addition, leave the function as exceptions.
\<close>

definition advance :: "datetime \<Rightarrow> string \<Rightarrow> error + datetime" where
  "advance current_datetime unit =
     (case timedelta_1 (unit @ ''s'') of
        Some td \<Rightarrow> add_timedelta current_datetime td
      | None \<Rightarrow>
          (case relativedelta_1 (unit @ ''s'') of
             None \<Rightarrow> Inl TypeError
           | Some rd \<Rightarrow> add_relativedelta current_datetime rd))"

text \<open>
  The \<^verbatim>\<open>while\<close> loop. Nothing in it bounds the number of passes (a step may leave the
  datetime where it was), so the loop is a partial function: \<open>None\<close> is the run that
  never ends, \<open>Some (Inl e)\<close> the run that raises \<open>e\<close>.
\<close>

partial_function (option) range_loop ::
  "string \<Rightarrow> datetime \<Rightarrow> datetime \<Rightarrow> datetime list \<Rightarrow> (error + datetime list) option" where
  "range_loop unit end_datetime current_datetime dt_range =
     (if datetime_le current_datetime end_datetime
      then (case advance current_datetime unit of
              Inl e \<Rightarrow> Some (Inl e)
            | Inr next_datetime \<Rightarrow>
                range_loop unit end_datetime next_datetime (dt_range @ [current_datetime]))
      else Some (Inr dt_range))"

declare range_loop.simps [code]

definition generate_datetime_range ::
  "datetime \<Rightarrow> datetime \<Rightarrow> string \<Rightarrow> (error + datetime list) option" where
  "generate_datetime_range start_datetime end_datetime unit =
     range_loop unit (replace_tzinfo_None end_datetime) (replace_tzinfo_None start_datetime) []"

subsection \<open>A measure for the order of datetimes\<close>

text \<open>
  For the proofs about the loop: \<open>date_key\<close> and \<open>datetime_key\<close> map the calendar fields
  to an integer in a way that, on valid datetimes, agrees with the comparison of the
  field tuples. Every month takes 31 units, so the key of a date grows by 1 to 4 from
  one day to the next.
\<close>

definition date_key :: "int \<times> int \<times> int \<Rightarrow> int" where
  "date_key date = (case date of (y, m, d) \<Rightarrow> (y * 12 + (m - 1)) * 31 + (d - 1))"

definition datetime_key :: "datetime \<Rightarrow> int" where
  "datetime_key dt = date_key (year dt, month dt, day dt) * 86400000000 + time_of_day dt"

definition valid_date :: "int \<times> int \<times> int \<Rightarrow> bool" where
  "valid_date date = (case date of (y, m, d) \<Rightarrow>
     1 \<le> y \<and> 1 \<le> m \<and> m \<le> 12 \<and> 1 \<le> d \<and> d \<le> days_in_month y m)"

text \<open>
  The units for which one step of the loop is defined and moves forward: the keywords of
  \<^verbatim>\<open>timedelta\<close> without their \<^verbatim>\<open>s\<close>, and \<^verbatim>\<open>month\<close> and \<^verbatim>\<open>year\<close> of \<^verbatim>\<open>relativedelta\<close>.
\<close>

definition step_units :: "string list" where
  "step_units = [''microsecond'', ''millisecond'', ''second'', ''minute'', ''hour'', ''day'',
                 ''week'', ''month'', ''year'']"


subsection \<open>\<^verbatim>\<open>_valid_columns\<close>\<close>

text \<open>
  A sensor as the resolver reads it: its name and its \<^verbatim>\<open>observed_properties\<close>, a
  dictionary from raw keys to \<^verbatim>\<open>feature.property\<close> strings, here the list of its items.
\<close>

record sensor =
  sensor_name :: string
  observed_properties :: "(string \<times> string) list"

text \<open>\<^verbatim>\<open>xs[i]\<close> for \<open>i \<ge> 0\<close>, and \<^verbatim>\<open>s.split(sep)[0]\<close>, which cannot fail.\<close>

fun item :: "'a list \<Rightarrow> nat \<Rightarrow> error + 'a" where
  "item [] i = Inl IndexError"
| "item (x # xs) 0 = Inr x"
| "item (x # xs) (Suc i) = item xs i"

definition split0 :: "string \<Rightarrow> string \<Rightarrow> string" where
  "split0 s sep = (case split s sep of [] \<Rightarrow> [] | part # _ \<Rightarrow> part)"

text \<open>
  \<^verbatim>\<open>target_feature_properties\<close> maps a feature to the list of its requested properties,
  or to \<^verbatim>\<open>None\<close>; \<^verbatim>\<open>target_sensors\<close> is a list of names or \<^verbatim>\<open>None\<close>. In a condition,
  \<^verbatim>\<open>None\<close> and the empty list count as false.
\<close>

type_synonym feature_properties = "(string \<times> string list option) list"

definition truthy :: "'a list option \<Rightarrow> bool" where
  "truthy v = (case v of None \<Rightarrow> False | Some xs \<Rightarrow> xs \<noteq> [])"

definition members :: "'a list option \<Rightarrow> 'a set" where
  "members v = (case v of None \<Rightarrow> {} | Some xs \<Rightarrow> set xs)"

text \<open>The inner loop, over \<^verbatim>\<open>sensor.observed_properties.values()\<close>.\<close>

fun values_loop :: "feature_properties \<Rightarrow> string list \<Rightarrow> string set \<Rightarrow> error + string set" where
  "values_loop target_feature_properties [] columns = Inr columns"
| "values_loop target_feature_properties (val # vals) columns =
     (let current_feature = split0 val ''.''
      in case item (split val ''.'') 1 of
           Inl e \<Rightarrow> Inl e
         | Inr current_property \<Rightarrow>
             (case map_of target_feature_properties current_feature of
                None \<Rightarrow> values_loop target_feature_properties vals columns
              | Some properties \<Rightarrow>
                  if truthy properties \<and> current_property \<notin> members properties
                  then values_loop target_feature_properties vals columns
                  else values_loop target_feature_properties vals
                         (insert (lower current_property) columns)))"

text \<open>The outer loop, over the sensors of the node.\<close>

fun sensors_loop ::
  "string list option \<Rightarrow> feature_properties \<Rightarrow> sensor list \<Rightarrow> string set \<Rightarrow> error + string set" where
  "sensors_loop target_sensors target_feature_properties [] columns = Inr columns"
| "sensors_loop target_sensors target_feature_properties (s # ss) columns =
     (if truthy target_sensors \<and> sensor_name s \<notin> members target_sensors
      then sensors_loop target_sensors target_feature_properties ss columns
      else (case values_loop target_feature_properties (map snd (observed_properties s)) columns of
              Inl e \<Rightarrow> Inl e
            | Inr columns' \<Rightarrow> sensors_loop target_sensors target_feature_properties ss columns'))"

text \<open>
  The node is looked up in the metadata store; \<open>nodes\<close> gives the sensors attached to a
  node identifier, \<open>None\<close> when \<^verbatim>\<open>first()\<close> finds no node (reading \<^verbatim>\<open>.sensors\<close> of
  \<^verbatim>\<open>None\<close> then raises \<^verbatim>\<open>AttributeError\<close>).
\<close>

definition valid_columns ::
  "(string \<Rightarrow> sensor list option) \<Rightarrow> string option \<Rightarrow> string list option \<Rightarrow>
   feature_properties \<Rightarrow> error + string set" where
  "valid_columns nodes node target_sensors target_feature_properties =
     (case (case node of None \<Rightarrow> None | Some n \<Rightarrow> nodes n) of
        None \<Rightarrow> Inl AttributeError
      | Some ss \<Rightarrow> sensors_loop target_sensors target_feature_properties ss {})"

subsection \<open>\<^verbatim>\<open>_generate_aggregate_selects\<close>\<close>

text \<open>
  The aggregate functions of \<^verbatim>\<open>aggregate_fn_map\<close> (\<^verbatim>\<open>func.avg\<close>, \<^verbatim>\<open>func.stddev\<close>,
  \<^verbatim>\<open>func.variance\<close>), and the labelled select expressions: \<open>Date_trunc u\<close> is labelled
  \<^verbatim>\<open>time_bucket\<close>, \<open>Agg f c\<close> is labelled \<open>c\<close> and \<open>Count c\<close> is labelled \<open>c_count\<close>.
\<close>

datatype agg_fn = Avg | Stddev | Variance

datatype select = Date_trunc string | Agg agg_fn string | Count string

text \<open>A reflected feature-of-interest table: its name, and each column's name and type.\<close>

record obs_table =
  table_name :: string
  table_columns :: "(string \<times> string) list"

definition meta_columns :: "string list" where
  "meta_columns = [''node_id'', ''datetime'', ''meta_id'', ''sensor'']"

fun selects_loop ::
  "string set \<Rightarrow> agg_fn \<Rightarrow> (string \<times> string) list \<Rightarrow> select list \<Rightarrow> select list" where
  "selects_loop target_columns f [] selects = selects"
| "selects_loop target_columns f ((col_name, col_type) # cols) selects =
     (if col_name \<in> set meta_columns then selects_loop target_columns f cols selects
      else if col_name \<notin> target_columns then selects_loop target_columns f cols selects
      else if split0 col_type ''('' \<noteq> ''DOUBLE PRECISION''
        then selects_loop target_columns f cols selects
      else selects_loop target_columns f cols (selects @ [Agg f col_name, Count col_name]))"

definition generate_aggregate_selects ::
  "obs_table \<Rightarrow> string set \<Rightarrow> agg_fn \<Rightarrow> string \<Rightarrow> select list" where
  "generate_aggregate_selects table target_columns f agg_unit =
     selects_loop target_columns f (table_columns table) [Date_trunc agg_unit]"

subsection \<open>\<^verbatim>\<open>_apply_aggregates\<close>\<close>

text \<open>
  The query of one window: the selects, restricted to rows with
  \<open>lower_bound \<le> datetime < upper_bound\<close> and grouped by \<^verbatim>\<open>time_bucket\<close>. A result row is
  the list of its labelled values; a value is a text, an integer, a timestamp, a
  floating-point number (of type \<open>'f\<close>) or SQL's null.
\<close>

record agg_query =
  from_table :: string
  select_list :: "select list"
  lower_bound :: datetime
  upper_bound :: datetime

datatype 'f cell = Text string | Integer int | Timestamp datetime | Float 'f | Null

type_synonym 'f row = "(string \<times> 'f cell) list"

text \<open>
  The loop over \<^verbatim>\<open>range(0, len(datetimes) - 1)\<close>, with its two local values: the query
  of window \<open>i\<close>, and the placeholder for a window without rows. \<open>execute\<close> stands for
  \<^verbatim>\<open>r_session.execute(query).fetchall()\<close>; the queries sent are collected, in order, next
  to the aggregates.
\<close>

definition window_query :: "obs_table \<Rightarrow> select list \<Rightarrow> datetime list \<Rightarrow> nat \<Rightarrow> agg_query" where
  "window_query table selects datetimes i =
     \<lparr>from_table = table_name table, select_list = selects,
      lower_bound = datetimes ! i, upper_bound = datetimes ! (i + 1)\<rparr>"

definition empty_placeholder :: "datetime list \<Rightarrow> nat \<Rightarrow> 'f row list" where
  "empty_placeholder datetimes i =
     [[(''time_bucket'', Text (split0 (isoformat (datetimes ! i)) ''+'')),
       (''count'', Integer 0)]]"

fun apply_loop ::
  "(agg_query \<Rightarrow> 'f row list) \<Rightarrow> obs_table \<Rightarrow> select list \<Rightarrow> datetime list \<Rightarrow> nat list \<Rightarrow>
   agg_query list \<times> 'f row list \<Rightarrow> agg_query list \<times> 'f row list" where
  "apply_loop execute table selects datetimes [] (sent, aggregates) = (sent, aggregates)"
| "apply_loop execute table selects datetimes (i # is) (sent, aggregates) =
     (let query = window_query table selects datetimes i;
          payload = execute query
      in apply_loop execute table selects datetimes is
           (sent @ [query],
            aggregates @ (if payload \<noteq> [] then payload else empty_placeholder datetimes i)))"

definition apply_aggregates ::
  "(agg_query \<Rightarrow> 'f row list) \<Rightarrow> obs_table \<Rightarrow> select list \<Rightarrow> datetime list \<Rightarrow>
   agg_query list \<times> 'f row list" where
  "apply_aggregates execute table selects datetimes =
     apply_loop execute table selects datetimes [0..<length datetimes - 1] ([], [])"

subsection \<open>\<^verbatim>\<open>_format_aggregates\<close>\<close>

text \<open>
  An output record is a \<^verbatim>\<open>defaultdict(dict)\<close>: under a key it holds a value, or a nested
  dictionary of values. Writing \<^verbatim>\<open>record[k][sub] = v\<close> creates the nested dictionary when
  \<open>k\<close> is absent, and raises \<^verbatim>\<open>TypeError\<close> when \<open>k\<close> holds a plain value.
\<close>

datatype 'f entry = Scalar "'f cell" | Nested "(string \<times> 'f cell) list"

type_synonym 'f aggregate_json = "(string \<times> 'f entry) list"

definition set_nested ::
  "string \<Rightarrow> string \<Rightarrow> 'f cell \<Rightarrow> 'f aggregate_json \<Rightarrow> error + 'f aggregate_json" where
  "set_nested k sub v js =
     (case map_of js k of
        None \<Rightarrow> Inr (dict_set k (Nested [(sub, v)]) js)
      | Some (Nested m) \<Rightarrow> Inr (dict_set k (Nested (dict_set sub v m)) js)
      | Some (Scalar c) \<Rightarrow> Inl TypeError)"

fun format_row :: "string \<Rightarrow> 'f row \<Rightarrow> 'f aggregate_json \<Rightarrow> error + 'f aggregate_json" where
  "format_row agg_label [] js = Inr js"
| "format_row agg_label ((key, v) # items) js =
     (if key = ''time_bucket'' then format_row agg_label items (dict_set ''time_bucket'' (Scalar v) js)
      else if key = ''count'' then format_row agg_label items (dict_set ''count'' (Scalar v) js)
      else (case (if str_contains key ''count'' then set_nested (split0 key ''_'') ''count'' v js
                  else set_nested key agg_label v js) of
              Inl e \<Rightarrow> Inl e
            | Inr js' \<Rightarrow> format_row agg_label items js'))"

fun format_loop ::
  "string \<Rightarrow> 'f row list \<Rightarrow> 'f aggregate_json list \<Rightarrow> error + 'f aggregate_json list" where
  "format_loop agg_label [] results = Inr results"
| "format_loop agg_label (agg # aggregates) results =
     (case format_row agg_label agg [] of
        Inl e \<Rightarrow> Inl e
      | Inr aggregate_json \<Rightarrow> format_loop agg_label aggregates (results @ [aggregate_json]))"

definition format_aggregates :: "'f row list \<Rightarrow> string \<Rightarrow> error + 'f aggregate_json list" where
  "format_aggregates aggregates agg_label = format_loop agg_label aggregates []"

subsection \<open>\<^verbatim>\<open>aggregate\<close>\<close>

text \<open>
  What \<^verbatim>\<open>aggregate\<close> reaches outside the module: \<^verbatim>\<open>dateutil.parser.parse\<close>, the node
  metadata (the sensors attached to a node identifier), the reflection of a
  feature-of-interest table by name, and the execution of a query on it.
\<close>

record 'f env =
  date_parse :: "string \<Rightarrow> error + datetime"
  node_sensors :: "string \<Rightarrow> sensor list option"
  reflect :: "string \<Rightarrow> error + obs_table"
  execute :: "agg_query \<Rightarrow> 'f row list"

text \<open>The calls made to the observation store, in order.\<close>

datatype db_call = Reflect string | Execute agg_query

text \<open>
  The loop that builds \<^verbatim>\<open>target_feature_properties\<close>. A \<^verbatim>\<open>feature.property\<close> item adds
  the property to the feature's list (\<^verbatim>\<open>AttributeError\<close> when the feature is already
  mapped to \<^verbatim>\<open>None\<close>); any other item is mapped, whole, to \<^verbatim>\<open>None\<close>. The loop variable
  \<^verbatim>\<open>feature\<close> is read again after the loop, so its last value is returned as well.
\<close>

fun features_loop ::
  "string list \<Rightarrow> feature_properties \<Rightarrow> string \<Rightarrow> error + feature_properties \<times> string" where
  "features_loop [] target_feature_properties feature = Inr (target_feature_properties, feature)"
| "features_loop (f # fs) target_feature_properties feature =
     (case split f ''.'' of
        [feature_name, f_property] \<Rightarrow>
          (case map_of target_feature_properties feature_name of
             None \<Rightarrow>
               features_loop fs
                 (dict_set feature_name (Some [f_property]) target_feature_properties)
                 feature_name
           | Some (Some ps) \<Rightarrow>
               features_loop fs
                 (dict_set feature_name (Some (ps @ [f_property])) target_feature_properties)
                 feature_name
           | Some None \<Rightarrow> Inl AttributeError)
      | _ \<Rightarrow> features_loop fs (dict_set f None target_feature_properties) f)"

definition contradictory_filters :: string where
  "contradictory_filters =
     ''Your query returns no results. You have specified '' @
     ''filters which are likely contradictory (for example '' @
     ''filtering on a sensor which doesn'' @ [CHR 0x27] @ ''t have the feature '' @
     ''you are aggregating for)''"

text \<open>
  \<^verbatim>\<open>aggregate(args, agg_label, agg_fn)\<close>, with \<open>data\<close> for \<^verbatim>\<open>args.data\<close>. The result is
  \<open>None\<close> when the datetime range never ends; otherwise the calls made to the observation
  store, and the exception raised or the list returned.
\<close>

definition aggregate ::
  "'f env \<Rightarrow> (string \<times> string) list \<Rightarrow> string \<Rightarrow> agg_fn \<Rightarrow>
   (db_call list \<times> (error + 'f aggregate_json list)) option" where
  "aggregate env data agg_label f =
     (let node = map_of data ''node_id'';
          feature = map_of data ''feature'';
          start_dt = map_of data ''start_datetime'';
          end_dt = map_of data ''end_datetime'';
          sensors = map_of data ''sensors'';
          agg_unit = map_of data ''agg_unit''
      in
      case (case start_dt of None \<Rightarrow> Inl TypeError | Some text \<Rightarrow> date_parse env text) of
        Inl e \<Rightarrow> Some ([], Inl e)
      | Inr start_parsed \<Rightarrow>
      (case (case agg_unit of
               None \<Rightarrow> Inl (ValueError ''None is not in list'')
             | Some u \<Rightarrow> zero_out_datetime start_parsed u) of
        Inl e \<Rightarrow> Some ([], Inl e)
      | Inr start_zeroed \<Rightarrow>
      (case (case end_dt of None \<Rightarrow> Inl TypeError | Some text \<Rightarrow> date_parse env text) of
        Inl e \<Rightarrow> Some ([], Inl e)
      | Inr end_parsed \<Rightarrow>
      (case feature of
        None \<Rightarrow> Some ([], Inl AttributeError)
      | Some feature_text \<Rightarrow>
      (let target_features = split feature_text '','';
           target_sensors =
             (case sensors of
                None \<Rightarrow> None
              | Some text \<Rightarrow> if text = [] then None else Some (split text '',''))
       in
       case features_loop target_features [] feature_text of
         Inl e \<Rightarrow> Some ([], Inl e)
       | Inr (target_feature_properties, last_feature) \<Rightarrow>
       (case valid_columns (node_sensors env) node target_sensors target_feature_properties of
         Inl e \<Rightarrow> Some ([], Inl e)
       | Inr columns \<Rightarrow>
           if columns = {} then Some ([], Inl (ValueError contradictory_filters))
           else
             (let table_key = split0 last_feature ''.''
              in case reflect env table_key of
                   Inl e \<Rightarrow> Some ([Reflect table_key], Inl e)
                 | Inr table \<Rightarrow>
                     (let unit = (case agg_unit of None \<Rightarrow> [] | Some u \<Rightarrow> u);
                          selects = generate_aggregate_selects table columns f unit
                      in case generate_datetime_range start_zeroed end_parsed unit of
                           None \<Rightarrow> None
                         | Some (Inl e) \<Rightarrow> Some ([Reflect table_key], Inl e)
                         | Some (Inr datetimes) \<Rightarrow>
                             (case apply_aggregates (execute env) table selects datetimes of
                                (sent, results) \<Rightarrow>
                                  Some (Reflect table_key # map Execute sent,
                                        format_aggregates results agg_label))))))))))"

section \<open>Example data\<close>

text \<open>
  The table of the specification's examples, with columns \<^verbatim>\<open>id\<close>, \<^verbatim>\<open>obs_date\<close> and
  \<^verbatim>\<open>value\<close>. Each column answers \<^verbatim>\<open>hasattr\<close> for some of the operator methods that
  SQLAlchemy defines on every column.
\<close>

definition column_operators :: "string list" where
  "column_operators =
     [''__eq__'', ''__ne__'', ''__lt__'', ''__le__'', ''__gt__'', ''__ge__'',
      ''in_'', ''like'', ''ilike'', ''is_'']"

definition example_table :: table where
  "example_table =
     [\<lparr>name = ''id'', attrs = column_operators\<rparr>,
      \<lparr>name = ''obs_date'', attrs = column_operators\<rparr>,
      \<lparr>name = ''value'', attrs = column_operators\<rparr>]"

text \<open>
  A table whose column also has the attribute \<^verbatim>\<open>name\<close>, which every SQLAlchemy column
  has and which is a string, not a method.
\<close>

definition named_table :: table where
  "named_table = [\<lparr>name = ''id'', attrs = ''name'' # column_operators\<rparr>]"

text \<open>
  The libraries of the examples. The operator methods return a clause for every value,
  and any other attribute raises \<^verbatim>\<open>TypeError\<close> when called. One text is parsed: a line
  from (0, 0) to (0, 2), whose centroid has latitude 1 and whose buffer is taken to be
  the box around it.
\<close>

definition example_line_text :: string where
  "example_line_text =
     ''{'' @ [dquote] @ ''type'' @ [dquote] @ '': '' @ [dquote] @ ''LineString'' @ [dquote] @
     '', '' @ [dquote] @ ''coordinates'' @ [dquote] @ '': [[0, 0], [0, 2]]}''"

definition example_line :: json where
  "example_line =
     JObject [(''type'', JString ''LineString''),
              (''coordinates'',
               JArray [JArray [JNumber ''0'', JNumber ''0''],
                       JArray [JNumber ''0'', JNumber ''2'']])]"

definition example_corridor :: json where
  "example_corridor =
     JObject [(''type'', JString ''Polygon''),
              (''coordinates'',
               JArray [JArray [JArray [JNumber ''-0.0009'', JNumber ''-0.0009''],
                               JArray [JNumber ''0.0009'', JNumber ''-0.0009''],
                               JArray [JNumber ''0.0009'', JNumber ''2.0009''],
                               JArray [JNumber ''-0.0009'', JNumber ''2.0009''],
                               JArray [JNumber ''-0.0009'', JNumber ''-0.0009'']]])]"

definition example_lib :: libraries where
  "example_lib =
     \<lparr>json_loads = (\<lambda>text. if text = example_line_text then Inr example_line
                            else Inl (ValueError ''Expecting value'')),
      centroid_y = (\<lambda>val. if val = example_line then Inr 1 else Inl TypeError),
      buffer = (\<lambda>val d. if val = example_line then Inr example_corridor else Inl TypeError),
      call_attribute = (\<lambda>column attr v. if attr \<in> set column_operators then None
                                         else Some TypeError)\<rparr>"

text \<open>A table with a geometry column, which has the method \<^verbatim>\<open>ST_Within\<close>.\<close>

definition geometry_table :: table where
  "geometry_table = [\<lparr>name = ''geom'', attrs = ''ST_Within'' # column_operators\<rparr>]"

text \<open>The operator suffixes of the specification's vocabulary table.\<close>

definition operator_vocabulary :: "string list" where
  "operator_vocabulary =
     [''eq'', ''ne'', ''lt'', ''le'', ''gt'', ''ge'', ''in'', ''within'',
      ''time_of_day_ge'', ''time_of_day_le'']"

text \<open>
  A node with two sensors, and the feature-of-interest table \<^verbatim>\<open>temperature\<close>, for the
  examples of the aggregation engine.
\<close>

definition example_sensors :: "sensor list" where
  "example_sensors =
     [\<lparr>sensor_name = ''tmp112'',
       observed_properties = [(''temp'', ''temperature.temperature'')]\<rparr>,
      \<lparr>sensor_name = ''hmc5883l'',
       observed_properties = [(''x'', ''magnetic_field.x''), (''y'', ''magnetic_field.y'')]\<rparr>]"

definition example_nodes :: "string \<Rightarrow> sensor list option" where
  "example_nodes node = (if node = ''node_a'' then Some example_sensors else None)"

definition example_obs_table :: obs_table where
  "example_obs_table =
     \<lparr>table_name = ''temperature'',
      table_columns =
        [(''node_id'', ''VARCHAR''), (''datetime'', ''TIMESTAMP WITHOUT TIME ZONE''),
         (''meta_id'', ''DOUBLE PRECISION''), (''sensor'', ''VARCHAR''),
         (''temperature'', ''DOUBLE PRECISION'')]\<rparr>"

definition example_reflect :: "string \<Rightarrow> error + obs_table" where
  "example_reflect table_key =
     (if table_key = ''temperature'' then Inr example_obs_table else Inl KeyError)"

definition midnight :: "int \<Rightarrow> int \<Rightarrow> int \<Rightarrow> datetime" where
  "midnight y m d =
     \<lparr>year = y, month = m, day = d, hour = 0, minute = 0, second = 0, microsecond = 0,
      tzinfo = None\<rparr>"

text \<open>The date parser, on the few texts the examples use.\<close>

definition example_date_parse :: "string \<Rightarrow> error + datetime" where
  "example_date_parse text =
     (if text = ''2021-01-01T00:00:00'' then Inr (midnight 2021 1 1)
      else if text = ''2021-01-03T00:00:00'' then Inr (midnight 2021 1 3)
      else if text = ''2021-01-15T00:00:00'' then Inr (midnight 2021 1 15)
      else if text = ''2021-02-20T00:00:00'' then Inr (midnight 2021 2 20)
      else Inl (ValueError ''Unknown string format''))"

text \<open>
  A store for the examples. It holds readings of the one column \<^verbatim>\<open>temperature\<close>, and
  answers a window's query as the database does: the readings of the window are grouped
  by \<^verbatim>\<open>date_trunc(unit, datetime)\<close>, and each group gives one row with the bucket, and
  for every aggregate select the aggregate (left symbolic: the function and the values
  it is applied to) and for every count select the number of values.
\<close>

definition date_trunc :: "string \<Rightarrow> datetime \<Rightarrow> datetime" where
  "date_trunc unit dt =
     (if unit = ''year''
        then dt\<lparr>month := 1, day := 1, hour := 0, minute := 0, second := 0, microsecond := 0\<rparr>
      else if unit = ''month''
        then dt\<lparr>day := 1, hour := 0, minute := 0, second := 0, microsecond := 0\<rparr>
      else if unit = ''day'' then dt\<lparr>hour := 0, minute := 0, second := 0, microsecond := 0\<rparr>
      else if unit = ''hour'' then dt\<lparr>minute := 0, second := 0, microsecond := 0\<rparr>
      else if unit = ''minute'' then dt\<lparr>second := 0, microsecond := 0\<rparr>
      else if unit = ''second'' then dt\<lparr>microsecond := 0\<rparr>
      else dt)"

type_synonym reading = "datetime \<times> int"

fun bucket_unit :: "select list \<Rightarrow> string" where
  "bucket_unit [] = []"
| "bucket_unit (Date_trunc unit # selects) = unit"
| "bucket_unit (_ # selects) = bucket_unit selects"

fun group_cells :: "int list \<Rightarrow> select \<Rightarrow> (agg_fn \<times> int list) row" where
  "group_cells vs (Date_trunc unit) = []"
| "group_cells vs (Agg f c) = [(c, Float (f, vs))]"
| "group_cells vs (Count c) = [(c @ ''_count'', Integer (int (length vs)))]"

definition example_execute :: "reading list \<Rightarrow> agg_query \<Rightarrow> (agg_fn \<times> int list) row list" where
  "example_execute readings q =
     (let unit = bucket_unit (select_list q);
          window = filter (\<lambda>(t, v). datetime_le (lower_bound q) t \<and> datetime_lt t (upper_bound q))
                     readings;
          buckets = remdups (map (\<lambda>(t, v). date_trunc unit t) window)
      in map (\<lambda>b. (''time_bucket'', Timestamp b) #
                   concat (map (group_cells
                                  (map snd (filter (\<lambda>(t, v). date_trunc unit t = b) window)))
                             (select_list q)))
           buckets)"

definition example_readings :: "reading list" where
  "example_readings = [(midnight 2021 1 20, 3), (midnight 2021 2 10, 5)]"

definition example_env :: "(agg_fn \<times> int list) env" where
  "example_env =
     \<lparr>date_parse = example_date_parse, node_sensors = example_nodes,
      reflect = example_reflect, execute = example_execute example_readings\<rparr>"

section \<open>Predicates of the statements\<close>

text \<open>
  A sensor is selected when no sensor filter is given or its name is in the filter. A
  mapping value \<^verbatim>\<open>feature.property\<close> maps into the request when its feature is among the
  requested features and, if properties were requested for that feature, its property
  is one of them.
\<close>

definition selected :: "string list option \<Rightarrow> sensor \<Rightarrow> bool" where
  "selected target_sensors s =
     (if truthy target_sensors then sensor_name s \<in> members target_sensors else True)"

definition maps_into :: "feature_properties \<Rightarrow> string \<Rightarrow> bool" where
  "maps_into target_feature_properties val =
     (case map_of target_feature_properties (split0 val ''.'') of
        None \<Rightarrow> False
      | Some properties \<Rightarrow>
          (case item (split val ''.'') 1 of
             Inl e \<Rightarrow> False
           | Inr p \<Rightarrow> if truthy properties then p \<in> members properties else True))"

section \<open>Properties of the filter translator\<close>

subsection \<open>Splitting a string\<close>

lemma split_from_nonempty: "split_from sep part s \<noteq> []"
  by (induction sep part s rule: split_from.induct) auto

lemma split_from_no_sep:
  "\<not> str_contains s sep \<Longrightarrow> split_from sep part s = [part @ s]"
  by (induction s arbitrary: part) auto

lemma split_from_first:
  "\<not> str_contains (f @ ''_'') ''__'' \<Longrightarrow>
   split_from ''__'' part (f @ ''__'' @ tail) = (part @ f) # split_from ''__'' [] tail"
proof (induction f arbitrary: part)
  case Nil
  then show ?case by simp
next
  case (Cons c f)
  then show ?case by (cases f) auto
qed

lemma split_from_two:
  "str_contains s ''__'' \<Longrightarrow> 2 \<le> length (split_from ''__'' part s)"
proof (induction s arbitrary: part)
  case Nil
  then show ?case by simp
next
  case (Cons c s)
  show ?case
  proof (cases "startswith (c # s) ''__''")
    case True
    have "split_from ''__'' [] (drop (length ''__'' - 1) s) \<noteq> []"
      by (rule split_from_nonempty)
    then have "1 \<le> length (split_from ''__'' [] (drop (length ''__'' - 1) s))"
      by (cases "split_from ''__'' [] (drop (length ''__'' - 1) s)") auto
    with True show ?thesis by simp
  next
    case False
    with Cons.prems have "str_contains s ''__''" by auto
    from Cons.IH [OF this, of "part @ [c]"] False show ?thesis by auto
  qed
qed

subsection \<open>Rendering a string\<close>

text \<open>
  \<^verbatim>\<open>repr\<close> on a text with a control character, on one with a single quote, and on
  one with a character beyond ASCII that is not printable.
\<close>

lemma repr_examples:
  "repr [CHR ''a'', CHR 0x01, CHR ''b''] = [squote] @ ''a'' @ [backslash] @ ''x01b'' @ [squote]"
  "repr (''it'' @ [squote] @ ''s'') = [dquote] @ ''it'' @ [squote] @ ''s'' @ [dquote]"
  "repr [CHR 0xAD, CHR 0xE9] = [squote, backslash] @ ''xad'' @ [CHR 0xE9, squote]"
  by (simp_all add: repr_def repr_char_def printable_def hexdigit_def squote_def dquote_def
      backslash_def Let_def)

subsection \<open>One pass of the loop\<close>

lemma columns_get_Some:
  "columns_get table field = Some col \<Longrightarrow> field \<in> set (table_keys table) \<and> name col = field"
  by (auto simp: columns_get_def table_keys_def find_Some_iff)



lemma translate_param_time_of_day:
  assumes "split_param query_param = (field, operator)"
    and "columns_get table field = Some col"
    and "startswith operator ''time_of_day''"
  shows "translate_param lib table raw q query_param =
     Continue (append_clause q
       (if endswith operator ''ge'' then Some (Hour_ge col (get raw query_param))
        else if endswith operator ''le'' then Some (Hour_le col (get raw query_param))
        else None))"
proof -
  from assms(3) have "operator \<noteq> ''in''" and "operator \<noteq> ''within''" by auto
  with assms columns_get_Some [OF assms(2)] show ?thesis
    by (simp add: translate_param_def)
qed

lemma translate_param_in:
  assumes "split_param query_param = (field, ''in'')"
    and "columns_get table field = Some col"
    and "hasattr col ''in_''"
    and "get raw query_param = Some v"
  shows "translate_param lib table raw q query_param =
     Continue (append_clause q (Some (Col_in col (split v '',''))))"
  using assms columns_get_Some [OF assms(2)] by (simp add: translate_param_def)

lemma invalidate_fields:
  "\<not> valid_query (invalidate q msg)" "status_code (invalidate q msg) = 400"
  "meta_message (resp (invalidate q msg)) = msg"
  "query_clauses (invalidate q msg) = query_clauses q"
  by (simp_all add: invalidate_def)

lemma translate_param_call:
  assumes "split_param query_param = (field, operator)"
    and "columns_get table field = Some col"
    and "operator \<noteq> ''in''" and "operator \<noteq> ''within''"
    and "\<not> startswith operator ''time_of_day''"
  shows "translate_param lib table raw q query_param =
     (case filter (hasattr col) [operator, operator @ ''_'', ''__'' @ operator @ ''__''] of
        [] \<Rightarrow> Break (invalidate q (repr operator @ '' is not a valid query operator''))
      | attr # others \<Rightarrow> call_operator lib q col attr (get raw query_param))"
  using assms columns_get_Some [OF assms(2)]
  by (simp add: translate_param_def Let_def del: filter.simps)






subsection \<open>Keys and operators\<close>

text \<open>
  Claim C6, as stated: the key is split at the first separator, so that a key with two
  or more separators has the text before the first one as its field. The source unpacks
  the whole split into two names, which fails on three parts or more, and the handler
  then takes the whole key as the field, with operator \<^verbatim>\<open>eq\<close>.
\<close>

theorem split_param_two_separators:
  "split_param ''a__b__c'' = (''a__b__c'', ''eq'') \<and> fst (split_param ''a__b__c'') \<noteq> ''a''"
  by (simp add: split_param_def split_def)

text \<open>
  Claim C6, amended: a key with no separator is the field, with operator \<^verbatim>\<open>eq\<close>; a key
  \<open>f__op\<close> whose only separator is the one after \<open>f\<close> splits into \<open>f\<close> and \<open>op\<close>; a key
  in which a further separator follows is, whole, the field, with operator \<^verbatim>\<open>eq\<close>.
  (That no separator starts inside \<open>f\<close> is \<open>\<not> str_contains (f @ ''_'') ''__''\<close>.)
\<close>

theorem split_param_by_separators:
  "(\<not> str_contains k ''__'' \<longrightarrow> split_param k = (k, ''eq'')) \<and>
   (\<not> str_contains (f @ ''_'') ''__'' \<and> \<not> str_contains op ''__'' \<longrightarrow>
      split_param (f @ ''__'' @ op) = (f, op)) \<and>
   (\<not> str_contains (g @ ''_'') ''__'' \<and> str_contains tail ''__'' \<longrightarrow>
      split_param (g @ ''__'' @ tail) = (g @ ''__'' @ tail, ''eq''))"
proof (intro conjI impI)
  assume "\<not> str_contains k ''__''"
  then show "split_param k = (k, ''eq'')"
    by (simp add: split_param_def split_def split_from_no_sep)
next
  assume a: "\<not> str_contains (f @ ''_'') ''__'' \<and> \<not> str_contains op ''__''"
  then have "split (f @ ''__'' @ op) ''__'' = [f, op]"
    using split_from_first [of f "[]" op] split_from_no_sep [of op "''__''" "[]"]
    by (simp add: split_def)
  then show "split_param (f @ ''__'' @ op) = (f, op)"
    by (simp add: split_param_def)
next
  assume a: "\<not> str_contains (g @ ''_'') ''__'' \<and> str_contains tail ''__''"
  then have "2 \<le> length (split_from ''__'' [] tail)"
    by (simp add: split_from_two)
  moreover from a have "split (g @ ''__'' @ tail) ''__'' = g # split_from ''__'' [] tail"
    using split_from_first [of g "[]" tail] by (simp add: split_def)
  ultimately show "split_param (g @ ''__'' @ tail) = (g @ ''__'' @ tail, ''eq'')"
    by (auto simp: split_param_def split: list.splits)
qed

theorem split_param_by_separators_witness:
  "(\<not> str_contains ''value'' ''__'' \<and> split_param ''value'' = (''value'', ''eq'')) \<and>
   (\<not> str_contains (''obs_date'' @ ''_'') ''__'' \<and> \<not> str_contains ''ge'' ''__'' \<and>
      split_param (''obs_date'' @ ''__'' @ ''ge'') = (''obs_date'', ''ge'')) \<and>
   (\<not> str_contains (''a'' @ ''_'') ''__'' \<and> str_contains ''b__c'' ''__'' \<and>
      split_param (''a'' @ ''__'' @ ''b__c'') = (''a'' @ ''__'' @ ''b__c'', ''eq''))"
proof -
  have h1: "\<not> str_contains ''value'' ''__''" by simp
  have h2: "\<not> str_contains (''obs_date'' @ ''_'') ''__'' \<and> \<not> str_contains ''ge'' ''__''"
    by simp
  have h3: "\<not> str_contains (''a'' @ ''_'') ''__'' \<and> str_contains ''b__c'' ''__''" by simp
  from h1 h2 h3
    split_param_by_separators [of "''value''" "''obs_date''" "''ge''" "''a''" "''b__c''"]
  show ?thesis by blast
qed

text \<open>
  Claim C3, as stated: an operator outside the vocabulary is reported as invalid. The
  source looks the operator up among the attributes of the column and calls what it
  finds, so that \<^verbatim>\<open>like\<close>, a method of every column, gives a clause; and every operator
  that starts with \<^verbatim>\<open>time_of_day\<close> is taken by that branch.
\<close>

theorem unlisted_operator_accepted:
  "''like'' \<notin> set operator_vocabulary \<and>
   make_query example_lib example_table [(''id__like'', ''a'')] =
     Inr \<lparr>valid_query = True,
          query_clauses =
            [Some (Call \<lparr>name = ''id'', attrs = column_operators\<rparr> ''like'' (Some ''a''))],
          resp = \<lparr>meta_status = ''error'', meta_message = '''', objects = []\<rparr>,
          status_code = 200\<rparr> \<and>
   ''time_of_day'' \<notin> set operator_vocabulary \<and>
   make_query example_lib example_table [(''obs_date__time_of_day'', ''5'')] =
     Inr \<lparr>valid_query = True, query_clauses = [None],
          resp = \<lparr>meta_status = ''error'', meta_message = '''', objects = []\<rparr>,
          status_code = 200\<rparr>"
  by (simp add: operator_vocabulary_def make_query_def args_keys_def keys_def
      initial_query_def translate_param_def split_param_def split_def get_def
      columns_get_def table_keys_def example_table_def column_operators_def hasattr_def
      append_clause_def endswith_def example_lib_def call_operator_def Let_def)

text \<open>
  Claim C3, amended: let the field be a column of the table and the operator be neither
  \<^verbatim>\<open>in\<close> nor \<^verbatim>\<open>within\<close> nor start with \<^verbatim>\<open>time_of_day\<close>. When the column has no attribute
  named \<^verbatim>\<open>op\<close>, \<^verbatim>\<open>op_\<close> or \<^verbatim>\<open>__op__\<close>, the scan ends at this parameter with the result
  invalid, status 400, the message \<^verbatim>\<open>repr(op)\<close> followed by
  \<^verbatim>\<open> is not a valid query operator\<close>, and the clauses collected so far unchanged.
  Otherwise the first of the three names that is an attribute is called with the value
  (\<^verbatim>\<open>None\<close> for the value \<^verbatim>\<open>'null'\<close>): when the call returns, one clause is appended and
  nothing else changes, whether or not the operator is in the vocabulary; when the call
  raises, as it does for an attribute that is no method, the exception leaves the
  translator.
\<close>

theorem invalid_operator_reported:
  assumes "split_param query_param = (field, operator)"
    and "columns_get table field = Some col"
    and "operator \<noteq> ''in''" and "operator \<noteq> ''within''"
    and "\<not> startswith operator ''time_of_day''"
    and "v = (if get raw query_param = Some ''null'' then None else get raw query_param)"
  shows
    "(filter (hasattr col) [operator, operator @ ''_'', ''__'' @ operator @ ''__''] = [] \<longrightarrow>
        (\<exists>q'. scan lib table raw q (query_param # rest) = Inr q' \<and>
           \<not> valid_query q' \<and> status_code q' = 400 \<and>
           meta_message (resp q') = repr operator @ '' is not a valid query operator'' \<and>
           query_clauses q' = query_clauses q)) \<and>
     (filter (hasattr col) [operator, operator @ ''_'', ''__'' @ operator @ ''__''] = attr # others \<and>
      call_attribute lib col attr v = None \<longrightarrow>
        translate_param lib table raw q query_param =
          Continue (q\<lparr>query_clauses := query_clauses q @ [Some (Call col attr v)]\<rparr>)) \<and>
     (filter (hasattr col) [operator, operator @ ''_'', ''__'' @ operator @ ''__''] = attr # others \<and>
      call_attribute lib col attr v = Some e \<longrightarrow>
        scan lib table raw q (query_param # rest) = Inl e)"
proof -
  note step = translate_param_call [OF assms(1-5), of lib raw q]
  show ?thesis
  proof (intro conjI impI)
    assume "filter (hasattr col) [operator, operator @ ''_'', ''__'' @ operator @ ''__''] = []"
    with step have "translate_param lib table raw q query_param =
        Break (invalidate q (repr operator @ '' is not a valid query operator''))"
      by (simp del: filter.simps)
    then show "\<exists>q'. scan lib table raw q (query_param # rest) = Inr q' \<and>
           \<not> valid_query q' \<and> status_code q' = 400 \<and>
           meta_message (resp q') = repr operator @ '' is not a valid query operator'' \<and>
           query_clauses q' = query_clauses q"
      by (simp add: invalidate_fields)
  next
    assume "filter (hasattr col) [operator, operator @ ''_'', ''__'' @ operator @ ''__''] =
        attr # others \<and> call_attribute lib col attr v = None"
    with step assms(6) show "translate_param lib table raw q query_param =
        Continue (q\<lparr>query_clauses := query_clauses q @ [Some (Call col attr v)]\<rparr>)"
      by (simp add: call_operator_def Let_def append_clause_def del: filter.simps)
  next
    assume "filter (hasattr col) [operator, operator @ ''_'', ''__'' @ operator @ ''__''] =
        attr # others \<and> call_attribute lib col attr v = Some e"
    with step assms(6) have "translate_param lib table raw q query_param = Raise e"
      by (simp add: call_operator_def Let_def del: filter.simps)
    then show "scan lib table raw q (query_param # rest) = Inl e" by simp
  qed
qed

theorem invalid_operator_reported_witness:
  "split_param ''id__zz'' = (''id'', ''zz'') \<and>
   columns_get example_table ''id'' = Some \<lparr>name = ''id'', attrs = column_operators\<rparr> \<and>
   filter (hasattr \<lparr>name = ''id'', attrs = column_operators\<rparr>)
     [''zz'', ''zz'' @ ''_'', ''__'' @ ''zz'' @ ''__''] = [] \<and>
   (\<exists>q'. make_query example_lib example_table [(''id__zz'', ''1''), (''value'', ''3'')] = Inr q' \<and>
      \<not> valid_query q' \<and> status_code q' = 400 \<and>
      meta_message (resp q') = repr ''zz'' @ '' is not a valid query operator'' \<and>
      query_clauses q' = []) \<and>
   split_param ''id__ne'' = (''id'', ''ne'') \<and>
   filter (hasattr \<lparr>name = ''id'', attrs = column_operators\<rparr>)
     [''ne'', ''ne'' @ ''_'', ''__'' @ ''ne'' @ ''__''] = [''__ne__''] \<and>
   call_attribute example_lib \<lparr>name = ''id'', attrs = column_operators\<rparr> ''__ne__'' None = None \<and>
   translate_param example_lib example_table [(''id__ne'', ''null'')] initial_query ''id__ne'' =
     Continue (initial_query\<lparr>query_clauses :=
       [Some (Call \<lparr>name = ''id'', attrs = column_operators\<rparr> ''__ne__'' None)]\<rparr>) \<and>
   split_param ''id__name'' = (''id'', ''name'') \<and>
   columns_get named_table ''id'' = Some \<lparr>name = ''id'', attrs = ''name'' # column_operators\<rparr> \<and>
   filter (hasattr \<lparr>name = ''id'', attrs = ''name'' # column_operators\<rparr>)
     [''name'', ''name'' @ ''_'', ''__'' @ ''name'' @ ''__''] = [''name''] \<and>
   call_attribute example_lib \<lparr>name = ''id'', attrs = ''name'' # column_operators\<rparr> ''name''
     (Some ''5'') = Some TypeError \<and>
   make_query example_lib named_table [(''id__name'', ''5'')] = Inl TypeError"
proof -
  let ?col = "\<lparr>name = ''id'', attrs = column_operators\<rparr>"
  let ?named = "\<lparr>name = ''id'', attrs = ''name'' # column_operators\<rparr>"
  have a1: "split_param ''id__zz'' = (''id'', ''zz'')"
    by (simp add: split_param_def split_def)
  have a2: "columns_get example_table ''id'' = Some ?col"
    by (simp add: columns_get_def example_table_def)
  have a3: "filter (hasattr ?col) [''zz'', ''zz'' @ ''_'', ''__'' @ ''zz'' @ ''__''] = []"
    by (simp add: hasattr_def column_operators_def)
  have keys: "args_keys [(''id__zz'', ''1''), (''value'', ''3'')] = [''id__zz'', ''value'']"
    by (simp add: args_keys_def keys_def)
  from invalid_operator_reported [where lib = example_lib and q = initial_query
      and raw = "[(''id__zz'', ''1''), (''value'', ''3'')]" and rest = "[''value'']",
      OF a1 a2 _ _ _ refl] a3
  have "\<exists>q'. scan example_lib example_table [(''id__zz'', ''1''), (''value'', ''3'')]
            initial_query [''id__zz'', ''value''] = Inr q' \<and>
          \<not> valid_query q' \<and> status_code q' = 400 \<and>
          meta_message (resp q') = repr ''zz'' @ '' is not a valid query operator'' \<and>
          query_clauses q' = query_clauses initial_query"
    by simp
  then have a: "\<exists>q'. make_query example_lib example_table [(''id__zz'', ''1''), (''value'', ''3'')] =
        Inr q' \<and> \<not> valid_query q' \<and> status_code q' = 400 \<and>
      meta_message (resp q') = repr ''zz'' @ '' is not a valid query operator'' \<and>
      query_clauses q' = []"
    using keys by (simp add: make_query_def initial_query_def)
  have b1: "split_param ''id__ne'' = (''id'', ''ne'')"
    by (simp add: split_param_def split_def)
  have b3: "filter (hasattr ?col) [''ne'', ''ne'' @ ''_'', ''__'' @ ''ne'' @ ''__''] = [''__ne__'']"
    by (simp add: hasattr_def column_operators_def)
  have b4: "call_attribute example_lib ?col ''__ne__'' None = None"
    by (simp add: example_lib_def column_operators_def)
  have b5: "None = (if get [(''id__ne'', ''null'')] ''id__ne'' = Some ''null'' then None
      else get [(''id__ne'', ''null'')] ''id__ne'')"
    by (simp add: get_def)
  from invalid_operator_reported [where lib = example_lib and q = initial_query
      and attr = "''__ne__''" and others = "[]", OF b1 a2 _ _ _ b5] b3 b4
  have b: "translate_param example_lib example_table [(''id__ne'', ''null'')] initial_query
      ''id__ne'' = Continue (initial_query\<lparr>query_clauses :=
        [Some (Call ?col ''__ne__'' None)]\<rparr>)"
    by (simp add: initial_query_def)
  have c1: "split_param ''id__name'' = (''id'', ''name'')"
    by (simp add: split_param_def split_def)
  have c2: "columns_get named_table ''id'' = Some ?named"
    by (simp add: columns_get_def named_table_def)
  have c3: "filter (hasattr ?named) [''name'', ''name'' @ ''_'', ''__'' @ ''name'' @ ''__''] =
      [''name'']"
    by (simp add: hasattr_def column_operators_def)
  have c4: "call_attribute example_lib ?named ''name'' (Some ''5'') = Some TypeError"
    by (simp add: example_lib_def column_operators_def)
  have c5: "Some ''5'' = (if get [(''id__name'', ''5'')] ''id__name'' = Some ''null'' then None
      else get [(''id__name'', ''5'')] ''id__name'')"
    by (simp add: get_def)
  from invalid_operator_reported [where lib = example_lib and q = initial_query
      and attr = "''name''" and others = "[]" and e = TypeError and rest = "[]",
      OF c1 c2 _ _ _ c5] c3 c4
  have "scan example_lib named_table [(''id__name'', ''5'')] initial_query [''id__name''] =
      Inl TypeError"
    by simp
  then have c: "make_query example_lib named_table [(''id__name'', ''5'')] = Inl TypeError"
    by (simp add: make_query_def args_keys_def keys_def)
  from a1 a2 a3 a b1 b3 b4 b c1 c2 c3 c4 c show ?thesis by (intro conjI)
qed




text \<open>
  Claim C5, as stated: an empty operand of \<^verbatim>\<open>in\<close> gives a membership predicate over no
  value at all. Splitting the empty string on commas gives one part, the empty string,
  so the predicate is over the one value \<^verbatim>\<open>''\<close>.
\<close>

theorem in_empty_operand_one_value:
  "make_query example_lib example_table [(''id__in'', '''')] =
     Inr \<lparr>valid_query = True,
          query_clauses = [Some (Col_in \<lparr>name = ''id'', attrs = column_operators\<rparr> [''''])],
          resp = \<lparr>meta_status = ''error'', meta_message = '''', objects = []\<rparr>,
          status_code = 200\<rparr> \<and>
   split '''' '','' \<noteq> []"
  by (simp add: make_query_def args_keys_def keys_def
      initial_query_def translate_param_def split_param_def split_def get_def
      columns_get_def table_keys_def example_table_def column_operators_def hasattr_def
      append_clause_def)

text \<open>
  Claim C5, amended: for a parameter with the \<^verbatim>\<open>in\<close> operator on a column of the table
  and the empty string as operand, translation succeeds: the clause appended is the
  membership predicate over the one-element list holding the empty string, the result's
  validity, message and status are untouched, and the scan goes on.
\<close>

theorem in_empty_operand:
  assumes "split_param query_param = (field, ''in'')"
    and "columns_get table field = Some col"
    and "hasattr col ''in_''"
    and "get raw query_param = Some ''''"
  shows "scan lib table raw q (query_param # rest) =
     scan lib table raw (q\<lparr>query_clauses := query_clauses q @ [Some (Col_in col [''''])]\<rparr>) rest"
  by (simp add: translate_param_in [OF assms] append_clause_def split_def)

theorem in_empty_operand_witness:
  "split_param ''id__in'' = (''id'', ''in'') \<and>
   columns_get example_table ''id'' = Some \<lparr>name = ''id'', attrs = column_operators\<rparr> \<and>
   hasattr \<lparr>name = ''id'', attrs = column_operators\<rparr> ''in_'' \<and>
   get [(''id__in'', '''')] ''id__in'' = Some '''' \<and>
   scan example_lib example_table [(''id__in'', '''')] initial_query [''id__in''] =
     Inr (initial_query\<lparr>query_clauses :=
            [Some (Col_in \<lparr>name = ''id'', attrs = column_operators\<rparr> [''''])]\<rparr>)"
proof -
  let ?col = "\<lparr>name = ''id'', attrs = column_operators\<rparr>"
  have h1: "split_param ''id__in'' = (''id'', ''in'')"
    by (simp add: split_param_def split_def)
  have h2: "columns_get example_table ''id'' = Some ?col"
    by (simp add: columns_get_def example_table_def)
  have h3: "hasattr ?col ''in_''"
    by (simp add: hasattr_def column_operators_def)
  have h4: "get [(''id__in'', '''')] ''id__in'' = Some ''''"
    by (simp add: get_def)
  from in_empty_operand [OF h1 h2 h3 h4, of example_lib initial_query "[]"] h1 h2 h3 h4
  show ?thesis by (simp add: initial_query_def)
qed

text \<open>
  Claim C10: a parameter on a column of the table whose operator starts with
  \<^verbatim>\<open>time_of_day\<close> and ends with neither \<^verbatim>\<open>ge\<close> nor \<^verbatim>\<open>le\<close> appends \<open>None\<close> to the clause
  list; validity, message and status are untouched, and no error is reported for it.
\<close>

theorem time_of_day_appends_none:
  assumes "split_param query_param = (field, operator)"
    and "columns_get table field = Some col"
    and "startswith operator ''time_of_day''"
    and "\<not> endswith operator ''ge''" and "\<not> endswith operator ''le''"
  shows "scan lib table raw q (query_param # rest) =
     scan lib table raw (q\<lparr>query_clauses := query_clauses q @ [None]\<rparr>) rest"
  using assms(4,5)
  by (simp add: translate_param_time_of_day [OF assms(1,2,3)] append_clause_def)

theorem time_of_day_appends_none_witness:
  "split_param ''obs_date__time_of_day_xx'' = (''obs_date'', ''time_of_day_xx'') \<and>
   columns_get example_table ''obs_date'' =
     Some \<lparr>name = ''obs_date'', attrs = column_operators\<rparr> \<and>
   startswith ''time_of_day_xx'' ''time_of_day'' \<and>
   \<not> endswith ''time_of_day_xx'' ''ge'' \<and> \<not> endswith ''time_of_day_xx'' ''le'' \<and>
   make_query example_lib example_table [(''obs_date__time_of_day_xx'', ''5'')] =
     Inr \<lparr>valid_query = True, query_clauses = [None],
          resp = \<lparr>meta_status = ''error'', meta_message = '''', objects = []\<rparr>,
          status_code = 200\<rparr>"
proof -
  let ?col = "\<lparr>name = ''obs_date'', attrs = column_operators\<rparr>"
  have h1: "split_param ''obs_date__time_of_day_xx'' = (''obs_date'', ''time_of_day_xx'')"
    by (simp add: split_param_def split_def)
  have h2: "columns_get example_table ''obs_date'' = Some ?col"
    by (simp add: columns_get_def example_table_def)
  have h3: "startswith ''time_of_day_xx'' ''time_of_day''" by simp
  have h4: "\<not> endswith ''time_of_day_xx'' ''ge''" "\<not> endswith ''time_of_day_xx'' ''le''"
    by (simp_all add: endswith_def)
  have keys: "args_keys [(''obs_date__time_of_day_xx'', ''5'')] = [''obs_date__time_of_day_xx'']"
    by (simp add: args_keys_def keys_def)
  from time_of_day_appends_none [OF h1 h2 h3 h4,
      of example_lib "[(''obs_date__time_of_day_xx'', ''5'')]" initial_query "[]"]
  have "scan example_lib example_table [(''obs_date__time_of_day_xx'', ''5'')] initial_query
      [''obs_date__time_of_day_xx''] = Inr (initial_query\<lparr>query_clauses := [None]\<rparr>)"
    by (simp add: initial_query_def)
  with h1 h2 h3 h4 keys show ?thesis by (simp add: make_query_def initial_query_def)
qed

subsection \<open>Lines and corridors\<close>

lemma map_of_dict_set:
  "map_of (dict_set k v items) k' = (if k' = k then Some v else map_of items k')"
  by (induction items) auto

lemma getitem_setitem:
  assumes "setitem obj k v = Inr obj'"
  shows "getitem obj' k' = (if k' = k then Inr v else getitem obj k')"
  using assms by (cases obj) (auto simp: map_of_dict_set)

lemma getitem_object:
  assumes "getitem obj k = Inr v"
  shows "\<exists>obj'. setitem obj k' v' = Inr obj'"
  using assms by (cases obj) auto

lemma within_line:
  assumes "get raw query_param = Some text"
    and "json_loads lib text = Inr geo"
    and "resolved_geometry geo = Inr val"
    and "getitem val ''type'' = Inr (JString ''LineString'')"
  shows "within_geometry lib (get raw query_param) =
     (case centroid_y lib val of
        Inl e \<Rightarrow> Inl e
      | Inr lat \<Rightarrow>
          (case buffer lib val (snd (get_size_in_degrees 100 lat)) of
             Inl e \<Rightarrow> Inl e
           | Inr polygon \<Rightarrow> setitem polygon ''crs'' crs))"
  using assms by (auto simp: within_geometry_def case_prod_unfold split: sum.split)

lemma translate_param_within:
  assumes "split_param query_param = (field, ''within'')"
    and "columns_get table field = Some col"
    and "hasattr col ''ST_Within''"
  shows "translate_param lib table raw q query_param =
     (case within_geometry lib (get raw query_param) of
        Inl e \<Rightarrow> Raise e
      | Inr g \<Rightarrow> Continue (append_clause q (Some (ST_Within col g))))"
  using assms columns_get_Some [OF assms(2)]
  by (simp add: translate_param_def Let_def split: sum.split)

text \<open>
  Claim C8: a \<^verbatim>\<open>within\<close> filter whose geometry is a \<^verbatim>\<open>LineString\<close>. The distance is the
  second component of \<^verbatim>\<open>get_size_in_degrees(100, lat)\<close> at the latitude of the line's
  centroid, and it is not zero. When shapely returns the buffer of the line by that
  distance, a polygon, the clause appended is the containment in that polygon with the
  coordinate reference system \<^verbatim>\<open>EPSG:4326\<close> added to it. And whenever a clause is appended
  at all, it is over the buffer of the line (the line itself never reaches the clause).
\<close>

theorem line_buffered_to_polygon:
  assumes "split_param query_param = (field, ''within'')"
    and "columns_get table field = Some col"
    and "hasattr col ''ST_Within''"
    and "get raw query_param = Some text"
    and "json_loads lib text = Inr geo"
    and "resolved_geometry geo = Inr val"
    and "getitem val ''type'' = Inr (JString ''LineString'')"
  shows
    "snd (get_size_in_degrees 100 lat) = 100 * (360 / 40041000) \<and>
     snd (get_size_in_degrees 100 lat) \<noteq> 0 \<and>
     (centroid_y lib val = Inr lat \<and>
      buffer lib val (snd (get_size_in_degrees 100 lat)) = Inr polygon \<and>
      getitem polygon ''type'' = Inr (JString ''Polygon'') \<longrightarrow>
        (\<exists>g. translate_param lib table raw q query_param =
                Continue (q\<lparr>query_clauses := query_clauses q @ [Some (ST_Within col g)]\<rparr>) \<and>
             setitem polygon ''crs'' crs = Inr g \<and>
             getitem g ''type'' = Inr (JString ''Polygon'') \<and>
             getitem g ''crs'' =
               Inr (JObject [(''type'', JString ''name''),
                             (''properties'', JObject [(''name'', JString ''EPSG:4326'')])]))) \<and>
     (translate_param lib table raw q query_param = Continue q' \<longrightarrow>
        (\<exists>lat' polygon' g. centroid_y lib val = Inr lat' \<and>
           buffer lib val (snd (get_size_in_degrees 100 lat')) = Inr polygon' \<and>
           setitem polygon' ''crs'' crs = Inr g \<and>
           q' = q\<lparr>query_clauses := query_clauses q @ [Some (ST_Within col g)]\<rparr>))"
proof (intro conjI impI)
  show d: "snd (get_size_in_degrees 100 lat) = 100 * (360 / 40041000)"
    by (simp add: get_size_in_degrees_def Let_def)
  then show "snd (get_size_in_degrees 100 lat) \<noteq> 0" by simp
next
  note step = translate_param_within [OF assms(1-3), of lib raw q]
    and geometry = within_line [OF assms(4-7)]
  assume a: "centroid_y lib val = Inr lat \<and>
      buffer lib val (snd (get_size_in_degrees 100 lat)) = Inr polygon \<and>
      getitem polygon ''type'' = Inr (JString ''Polygon'')"
  then obtain g where g: "setitem polygon ''crs'' crs = Inr g"
    using getitem_object by blast
  with a step geometry have "translate_param lib table raw q query_param =
      Continue (q\<lparr>query_clauses := query_clauses q @ [Some (ST_Within col g)]\<rparr>)"
    by (simp add: append_clause_def)
  moreover from a getitem_setitem [OF g, of "''type''"]
  have "getitem g ''type'' = Inr (JString ''Polygon'')" by simp
  moreover from getitem_setitem [OF g, of "''crs''"]
  have "getitem g ''crs'' =
      Inr (JObject [(''type'', JString ''name''),
                    (''properties'', JObject [(''name'', JString ''EPSG:4326'')])])"
    by (simp add: crs_def)
  ultimately show "\<exists>g. translate_param lib table raw q query_param =
        Continue (q\<lparr>query_clauses := query_clauses q @ [Some (ST_Within col g)]\<rparr>) \<and>
      setitem polygon ''crs'' crs = Inr g \<and>
      getitem g ''type'' = Inr (JString ''Polygon'') \<and>
      getitem g ''crs'' =
        Inr (JObject [(''type'', JString ''name''),
                      (''properties'', JObject [(''name'', JString ''EPSG:4326'')])])"
    using g by blast
next
  note step = translate_param_within [OF assms(1-3), of lib raw q]
    and geometry = within_line [OF assms(4-7)]
  assume c: "translate_param lib table raw q query_param = Continue q'"
  show "\<exists>lat' polygon' g. centroid_y lib val = Inr lat' \<and>
      buffer lib val (snd (get_size_in_degrees 100 lat')) = Inr polygon' \<and>
      setitem polygon' ''crs'' crs = Inr g \<and>
      q' = q\<lparr>query_clauses := query_clauses q @ [Some (ST_Within col g)]\<rparr>"
  proof (cases "centroid_y lib val")
    case (Inl e)
    with c step geometry show ?thesis by simp
  next
    case lat: (Inr lat')
    show ?thesis
    proof (cases "buffer lib val (snd (get_size_in_degrees 100 lat'))")
      case (Inl e)
      with c step geometry lat show ?thesis by simp
    next
      case polygon: (Inr polygon')
      show ?thesis
      proof (cases "setitem polygon' ''crs'' crs")
        case (Inl e)
        with c step geometry lat polygon show ?thesis by simp
      next
        case (Inr g)
        with c step geometry lat polygon
        have "q' = q\<lparr>query_clauses := query_clauses q @ [Some (ST_Within col g)]\<rparr>"
          by (simp add: append_clause_def)
        with lat polygon Inr show ?thesis by blast
      qed
    qed
  qed
qed

theorem line_buffered_to_polygon_witness:
  "split_param ''geom__within'' = (''geom'', ''within'') \<and>
   columns_get geometry_table ''geom'' =
     Some \<lparr>name = ''geom'', attrs = ''ST_Within'' # column_operators\<rparr> \<and>
   hasattr \<lparr>name = ''geom'', attrs = ''ST_Within'' # column_operators\<rparr> ''ST_Within'' \<and>
   get [(''geom__within'', example_line_text)] ''geom__within'' = Some example_line_text \<and>
   json_loads example_lib example_line_text = Inr example_line \<and>
   resolved_geometry example_line = Inr example_line \<and>
   getitem example_line ''type'' = Inr (JString ''LineString'') \<and>
   centroid_y example_lib example_line = Inr 1 \<and>
   buffer example_lib example_line (snd (get_size_in_degrees 100 1)) = Inr example_corridor \<and>
   getitem example_corridor ''type'' = Inr (JString ''Polygon'') \<and>
   snd (get_size_in_degrees 100 1) \<noteq> 0 \<and>
   (\<exists>lat' polygon'. centroid_y example_lib example_line = Inr lat' \<and>
      buffer example_lib example_line (snd (get_size_in_degrees 100 lat')) = Inr polygon') \<and>
   (\<exists>g. make_query example_lib geometry_table [(''geom__within'', example_line_text)] =
          Inr \<lparr>valid_query = True,
               query_clauses =
                 [Some (ST_Within \<lparr>name = ''geom'', attrs = ''ST_Within'' # column_operators\<rparr> g)],
               resp = \<lparr>meta_status = ''error'', meta_message = '''', objects = []\<rparr>,
               status_code = 200\<rparr> \<and>
        getitem g ''type'' = Inr (JString ''Polygon'') \<and>
        getitem g ''crs'' =
          Inr (JObject [(''type'', JString ''name''),
                        (''properties'', JObject [(''name'', JString ''EPSG:4326'')])]))"
proof -
  let ?col = "\<lparr>name = ''geom'', attrs = ''ST_Within'' # column_operators\<rparr>"
  let ?raw = "[(''geom__within'', example_line_text)]"
  have h1: "split_param ''geom__within'' = (''geom'', ''within'')"
    by (simp add: split_param_def split_def)
  have h2: "columns_get geometry_table ''geom'' = Some ?col"
    by (simp add: columns_get_def geometry_table_def)
  have h3: "hasattr ?col ''ST_Within''" by (simp add: hasattr_def)
  have h4: "get ?raw ''geom__within'' = Some example_line_text" by (simp add: get_def)
  have h5: "json_loads example_lib example_line_text = Inr example_line"
    by (simp add: example_lib_def)
  have h6: "resolved_geometry example_line = Inr example_line"
    by (simp add: resolved_geometry_def example_line_def)
  have h7: "getitem example_line ''type'' = Inr (JString ''LineString'')"
    by (simp add: example_line_def)
  have h8: "centroid_y example_lib example_line = Inr 1" by (simp add: example_lib_def)
  have h9: "buffer example_lib example_line (snd (get_size_in_degrees 100 1)) =
      Inr example_corridor"
    by (simp add: example_lib_def)
  have h10: "getitem example_corridor ''type'' = Inr (JString ''Polygon'')"
    by (simp add: example_corridor_def)
  note inst = line_buffered_to_polygon [where lib = example_lib and lat = 1
      and polygon = example_corridor and q = initial_query, OF h1 h2 h3 h4 h5 h6 h7]
  have nz: "snd (get_size_in_degrees 100 1) \<noteq> 0"
    by (rule inst [THEN conjunct2, THEN conjunct1])
  from inst [THEN conjunct2, THEN conjunct2, THEN conjunct1] h8 h9 h10 obtain g where
    g: "translate_param example_lib geometry_table ?raw initial_query ''geom__within'' =
          Continue (initial_query\<lparr>query_clauses :=
            query_clauses initial_query @ [Some (ST_Within ?col g)]\<rparr>)"
      "getitem g ''type'' = Inr (JString ''Polygon'')"
      "getitem g ''crs'' =
         Inr (JObject [(''type'', JString ''name''),
                       (''properties'', JObject [(''name'', JString ''EPSG:4326'')])])"
    by blast
  from inst [where q' = "initial_query\<lparr>query_clauses :=
      query_clauses initial_query @ [Some (ST_Within ?col g)]\<rparr>",
      THEN conjunct2, THEN conjunct2, THEN conjunct2] g(1)
  have buffered: "\<exists>lat' polygon'. centroid_y example_lib example_line = Inr lat' \<and>
      buffer example_lib example_line (snd (get_size_in_degrees 100 lat')) = Inr polygon'"
    by blast
  have keys: "args_keys ?raw = [''geom__within'']" by (simp add: args_keys_def keys_def)
  from g(1) have "make_query example_lib geometry_table ?raw =
      Inr \<lparr>valid_query = True, query_clauses = [Some (ST_Within ?col g)],
           resp = \<lparr>meta_status = ''error'', meta_message = '''', objects = []\<rparr>,
           status_code = 200\<rparr>"
    by (simp add: make_query_def keys initial_query_def)
  with g(2,3) have "\<exists>g. make_query example_lib geometry_table ?raw =
        Inr \<lparr>valid_query = True, query_clauses = [Some (ST_Within ?col g)],
             resp = \<lparr>meta_status = ''error'', meta_message = '''', objects = []\<rparr>,
             status_code = 200\<rparr> \<and>
      getitem g ''type'' = Inr (JString ''Polygon'') \<and>
      getitem g ''crs'' =
        Inr (JObject [(''type'', JString ''name''),
                      (''properties'', JObject [(''name'', JString ''EPSG:4326'')])])"
    by blast
  with h1 h2 h3 h4 h5 h6 h7 h8 h9 h10 nz buffered show ?thesis by (intro conjI)
qed

section \<open>Properties of the aggregation engine\<close>

subsection \<open>Zeroing a datetime\<close>

lemma replace_zero_time:
  assumes "valid_datetime dt"
  shows "replace dt ''hour'' 0 = Inr (dt\<lparr>hour := 0\<rparr>)"
    and "replace dt ''minute'' 0 = Inr (dt\<lparr>minute := 0\<rparr>)"
    and "replace dt ''second'' 0 = Inr (dt\<lparr>second := 0\<rparr>)"
    and "replace dt ''microsecond'' 0 = Inr (dt\<lparr>microsecond := 0\<rparr>)"
  using assms by (simp_all add: replace_def set_field_def valid_datetime_def)

lemma replace_zero_date:
  "replace dt ''month'' 0 = Inl (ValueError ''value out of range'')"
  "replace dt ''day'' 0 = Inl (ValueError ''value out of range'')"
  by (simp_all add: replace_def set_field_def valid_datetime_def)

lemma valid_datetime_zeroed:
  assumes "valid_datetime dt"
  shows "valid_datetime (dt\<lparr>hour := 0\<rparr>)" and "valid_datetime (dt\<lparr>minute := 0\<rparr>)"
    and "valid_datetime (dt\<lparr>second := 0\<rparr>)" and "valid_datetime (dt\<lparr>microsecond := 0\<rparr>)"
  using assms by (simp_all add: valid_datetime_def)

lemma zero_loop_time:
  assumes "valid_datetime dt"
  shows "zero_loop dt [''microsecond''] = Inr (dt\<lparr>microsecond := 0\<rparr>)"
    and "zero_loop dt [''second'', ''microsecond''] = Inr (dt\<lparr>second := 0, microsecond := 0\<rparr>)"
    and "zero_loop dt [''minute'', ''second'', ''microsecond''] =
           Inr (dt\<lparr>minute := 0, second := 0, microsecond := 0\<rparr>)"
    and "zero_loop dt [''hour'', ''minute'', ''second'', ''microsecond''] =
           Inr (dt\<lparr>hour := 0, minute := 0, second := 0, microsecond := 0\<rparr>)"
  using assms by (simp_all add: replace_zero_time valid_datetime_zeroed)

lemma zero_out_datetime_cases:
  assumes "valid_datetime dt"
  shows "zero_out_datetime dt ''year'' =
           Inr (dt\<lparr>hour := 0, minute := 0, second := 0, microsecond := 0\<rparr>)"
    and "zero_out_datetime dt ''month'' =
           Inr (dt\<lparr>hour := 0, minute := 0, second := 0, microsecond := 0\<rparr>)"
    and "zero_out_datetime dt ''day'' =
           Inr (dt\<lparr>hour := 0, minute := 0, second := 0, microsecond := 0\<rparr>)"
    and "zero_out_datetime dt ''hour'' =
           Inr (dt\<lparr>minute := 0, second := 0, microsecond := 0\<rparr>)"
    and "zero_out_datetime dt ''minute'' = Inr (dt\<lparr>second := 0, microsecond := 0\<rparr>)"
    and "zero_out_datetime dt ''second'' = Inr (dt\<lparr>microsecond := 0\<rparr>)"
    and "zero_out_datetime dt ''microsecond'' = Inr dt"
  using assms
  by (simp_all add: zero_out_datetime_def units_def replace_zero_date replace_zero_time
      valid_datetime_zeroed)

lemma valid_datetime_zero_out:
  assumes "valid_datetime dt"
  shows "valid_datetime (dt\<lparr>hour := 0, minute := 0, second := 0, microsecond := 0\<rparr>)"
    and "valid_datetime (dt\<lparr>minute := 0, second := 0, microsecond := 0\<rparr>)"
    and "valid_datetime (dt\<lparr>second := 0, microsecond := 0\<rparr>)"
  using assms by (simp_all add: valid_datetime_def)

lemma units_cases:
  "unit \<in> set units \<Longrightarrow>
   unit = ''year'' \<or> unit = ''month'' \<or> unit = ''day'' \<or> unit = ''hour'' \<or>
   unit = ''minute'' \<or> unit = ''second'' \<or> unit = ''microsecond''"
  by (simp add: units_def)

text \<open>
  Claim C7: for a datetime and one of the seven units, \<^verbatim>\<open>_zero_out_datetime\<close> returns
  without error; applying it again with the same unit changes nothing; every field below
  the unit that can be zero (hour, minute, second, microsecond) is zero in the result;
  the month and the day, which cannot be set to zero, are passed over and keep their
  values, as do the year, the time zone and the fields from the unit upwards.
\<close>

theorem zero_out_datetime_idempotent:
  assumes "valid_datetime dt" and "unit \<in> set units"
  shows "\<exists>d. zero_out_datetime dt unit = Inr d \<and> zero_out_datetime d unit = Inr d \<and>
           year d = year dt \<and> month d = month dt \<and> day d = day dt \<and> tzinfo d = tzinfo dt \<and>
           hour d = (if unit \<in> {''year'', ''month'', ''day''} then 0 else hour dt) \<and>
           minute d = (if unit \<in> {''year'', ''month'', ''day'', ''hour''} then 0 else minute dt) \<and>
           second d =
             (if unit \<in> {''year'', ''month'', ''day'', ''hour'', ''minute''} then 0
              else second dt) \<and>
           microsecond d = (if unit = ''microsecond'' then microsecond dt else 0)"
proof -
  note first = zero_out_datetime_cases [OF assms(1)]
  note v = valid_datetime_zero_out [OF assms(1)] valid_datetime_zeroed(4) [OF assms(1)]
  let ?d4 = "dt\<lparr>hour := 0, minute := 0, second := 0, microsecond := 0\<rparr>"
  let ?d3 = "dt\<lparr>minute := 0, second := 0, microsecond := 0\<rparr>"
  let ?d2 = "dt\<lparr>second := 0, microsecond := 0\<rparr>"
  let ?d1 = "dt\<lparr>microsecond := 0\<rparr>"
  from units_cases [OF assms(2)] show ?thesis
  proof (elim disjE)
    assume u1: "unit = ''year''"
    have a: "zero_out_datetime dt unit = Inr ?d4" using first(1) u1 by simp
    have b: "zero_out_datetime ?d4 unit = Inr ?d4"
      using zero_out_datetime_cases(1) [OF v(1)] u1 by simp
    show ?thesis by (rule exI [of _ ?d4], simp only: a b, simp add: u1)
  next
    assume u2: "unit = ''month''"
    have a: "zero_out_datetime dt unit = Inr ?d4" using first(2) u2 by simp
    have b: "zero_out_datetime ?d4 unit = Inr ?d4"
      using zero_out_datetime_cases(2) [OF v(1)] u2 by simp
    show ?thesis by (rule exI [of _ ?d4], simp only: a b, simp add: u2)
  next
    assume u3: "unit = ''day''"
    have a: "zero_out_datetime dt unit = Inr ?d4" using first(3) u3 by simp
    have b: "zero_out_datetime ?d4 unit = Inr ?d4"
      using zero_out_datetime_cases(3) [OF v(1)] u3 by simp
    show ?thesis by (rule exI [of _ ?d4], simp only: a b, simp add: u3)
  next
    assume u4: "unit = ''hour''"
    have a: "zero_out_datetime dt unit = Inr ?d3" using first(4) u4 by simp
    have b: "zero_out_datetime ?d3 unit = Inr ?d3"
      using zero_out_datetime_cases(4) [OF v(2)] u4 by simp
    show ?thesis by (rule exI [of _ ?d3], simp only: a b, simp add: u4)
  next
    assume u5: "unit = ''minute''"
    have a: "zero_out_datetime dt unit = Inr ?d2" using first(5) u5 by simp
    have b: "zero_out_datetime ?d2 unit = Inr ?d2"
      using zero_out_datetime_cases(5) [OF v(3)] u5 by simp
    show ?thesis by (rule exI [of _ ?d2], simp only: a b, simp add: u5)
  next
    assume u6: "unit = ''second''"
    have a: "zero_out_datetime dt unit = Inr ?d1" using first(6) u6 by simp
    have b: "zero_out_datetime ?d1 unit = Inr ?d1"
      using zero_out_datetime_cases(6) [OF v(4)] u6 by simp
    show ?thesis by (rule exI [of _ ?d1], simp only: a b, simp add: u6)
  next
    assume u7: "unit = ''microsecond''"
    have a: "zero_out_datetime dt unit = Inr dt" using first(7) u7 by simp
    show ?thesis by (rule exI [of _ dt], simp only: a, simp add: u7)
  qed
qed

theorem zero_out_datetime_idempotent_witness:
  "valid_datetime \<lparr>year = 2016, month = 9, day = 20, hour = 8, minute = 12, second = 12,
      microsecond = 345, tzinfo = None\<rparr> \<and>
   ''hour'' \<in> set units \<and>
   zero_out_datetime \<lparr>year = 2016, month = 9, day = 20, hour = 8, minute = 12, second = 12,
      microsecond = 345, tzinfo = None\<rparr> ''hour'' =
     Inr \<lparr>year = 2016, month = 9, day = 20, hour = 8, minute = 0, second = 0,
      microsecond = 0, tzinfo = None\<rparr> \<and>
   zero_out_datetime \<lparr>year = 2016, month = 9, day = 20, hour = 8, minute = 0, second = 0,
      microsecond = 0, tzinfo = None\<rparr> ''hour'' =
     Inr \<lparr>year = 2016, month = 9, day = 20, hour = 8, minute = 0, second = 0,
      microsecond = 0, tzinfo = None\<rparr>"
proof -
  let ?dt = "\<lparr>year = 2016, month = 9, day = 20, hour = 8, minute = 12, second = 12,
      microsecond = 345, tzinfo = None\<rparr>"
  have h1: "valid_datetime ?dt"
    by (simp add: valid_datetime_def days_in_month_def)
  have h2: "''hour'' \<in> set units" by (simp add: units_def)
  from zero_out_datetime_idempotent [OF h1 h2]
  obtain d where d: "zero_out_datetime ?dt ''hour'' = Inr d"
    and again: "zero_out_datetime d ''hour'' = Inr d" by blast
  have "zero_out_datetime ?dt ''hour'' =
      Inr \<lparr>year = 2016, month = 9, day = 20, hour = 8, minute = 0, second = 0,
        microsecond = 0, tzinfo = None\<rparr>"
    using zero_out_datetime_cases(4) [OF h1] by simp
  with d again h1 h2 show ?thesis by simp
qed

subsection \<open>The datetime range\<close>

lemma days_in_month_bounds: "28 \<le> days_in_month y m \<and> days_in_month y m \<le> 31"
  by (simp add: days_in_month_def)

lemma radix_less:
  fixes q r q' r' B :: int
  assumes "0 \<le> r" "r < B" "0 \<le> r'" "r' < B"
  shows "(q * B + r < q' * B + r') = (q < q' \<or> q = q' \<and> r < r')"
proof -
  have up: "x * B + s < y * B + t" if "x < y" "0 \<le> s" "s < B" "0 \<le> t" "t < B" for x y s t :: int
  proof -
    from that have "x + 1 \<le> y" by simp
    moreover from assms have "0 \<le> B" by simp
    ultimately have "(x + 1) * B \<le> y * B" by (rule mult_right_mono)
    then have "x * B + B \<le> y * B" by (simp add: algebra_simps)
    with that show ?thesis by linarith
  qed
  consider "q < q'" | "q = q'" | "q' < q" by linarith
  then show ?thesis
  proof cases
    case 1
    with up [of q q' r r'] assms show ?thesis by simp
  next
    case 2
    then show ?thesis by simp
  next
    case 3
    with up [of q' q r' r] assms show ?thesis by simp
  qed
qed

lemma radix_eq:
  fixes q r q' r' B :: int
  assumes "0 \<le> r" "r < B" "0 \<le> r'" "r' < B"
  shows "(q * B + r = q' * B + r') = (q = q' \<and> r = r')"
  using radix_less [OF assms, of q q'] radix_less [OF assms(3,4,1,2), of q' q] by auto

lemma time_of_day_bounds:
  assumes "valid_datetime dt"
  shows "0 \<le> time_of_day dt \<and> time_of_day dt < 86400000000"
proof -
  from assms have f: "0 \<le> hour dt" "hour dt \<le> 23" "0 \<le> minute dt" "minute dt \<le> 59"
    "0 \<le> second dt" "second dt \<le> 59" "0 \<le> microsecond dt" "microsecond dt \<le> 999999"
    by (simp_all add: valid_datetime_def)
  define q where "q = hour dt * 60 + minute dt"
  define p where "p = q * 60 + second dt"
  from f have "0 \<le> q \<and> q \<le> 1439" unfolding q_def by linarith
  with f have "0 \<le> p \<and> p \<le> 86399" unfolding p_def by linarith
  with f have "0 \<le> p * 1000000 + microsecond dt \<and> p * 1000000 + microsecond dt < 86400000000"
    by linarith
  then show ?thesis by (simp only: time_of_day_def p_def q_def)
qed

lemma time_of_day_less:
  assumes "valid_datetime a" "valid_datetime b"
  shows "(time_of_day a < time_of_day b) =
    (hour a < hour b \<or> hour a = hour b \<and>
      (minute a < minute b \<or> minute a = minute b \<and>
        (second a < second b \<or> second a = second b \<and> microsecond a < microsecond b)))"
proof -
  from assms have f: "0 \<le> minute a" "minute a < 60" "0 \<le> minute b" "minute b < 60"
    "0 \<le> second a" "second a < 60" "0 \<le> second b" "second b < 60"
    "0 \<le> microsecond a" "microsecond a < 1000000" "0 \<le> microsecond b" "microsecond b < 1000000"
    by (simp_all add: valid_datetime_def)
  note l1 = radix_less [OF f(9-12)] and l2 = radix_less [OF f(5-8)] and l3 = radix_less [OF f(1-4)]
    and e2 = radix_eq [OF f(5-8)] and e3 = radix_eq [OF f(1-4)]
  show ?thesis unfolding time_of_day_def by (simp only: l1 l2 l3 e2 e3) blast
qed

lemma date_key_less:
  assumes "valid_datetime a" "valid_datetime b"
  shows "(date_key (year a, month a, day a) < date_key (year b, month b, day b)) =
    (year a < year b \<or> year a = year b \<and>
      (month a < month b \<or> month a = month b \<and> day a < day b))"
proof -
  from assms days_in_month_bounds [of "year a" "month a"] days_in_month_bounds [of "year b" "month b"]
  have f: "0 \<le> day a - 1" "day a - 1 < 31" "0 \<le> day b - 1" "day b - 1 < 31"
    "0 \<le> month a - 1" "month a - 1 < 12" "0 \<le> month b - 1" "month b - 1 < 12"
    by (simp_all add: valid_datetime_def)
  note l1 = radix_less [OF f(1-4)] and l2 = radix_less [OF f(5-8)] and e2 = radix_eq [OF f(5-8)]
  have "(date_key (year a, month a, day a) < date_key (year b, month b, day b)) =
    (year a < year b \<or> year a = year b \<and>
      (month a - 1 < month b - 1 \<or> month a - 1 = month b - 1 \<and> day a - 1 < day b - 1))"
    unfolding date_key_def prod.case by (simp only: l1 l2 e2) blast
  then show ?thesis by simp
qed

lemma date_key_equal:
  assumes "valid_datetime a" "valid_datetime b"
  shows "(date_key (year a, month a, day a) = date_key (year b, month b, day b)) =
    (year a = year b \<and> month a = month b \<and> day a = day b)"
proof -
  from assms days_in_month_bounds [of "year a" "month a"] days_in_month_bounds [of "year b" "month b"]
  have f: "0 \<le> day a - 1" "day a - 1 < 31" "0 \<le> day b - 1" "day b - 1 < 31"
    "0 \<le> month a - 1" "month a - 1 < 12" "0 \<le> month b - 1" "month b - 1 < 12"
    by (simp_all add: valid_datetime_def)
  note e1 = radix_eq [OF f(1-4)] and e2 = radix_eq [OF f(5-8)]
  have "(date_key (year a, month a, day a) = date_key (year b, month b, day b)) =
    (year a = year b \<and> month a - 1 = month b - 1 \<and> day a - 1 = day b - 1)"
    unfolding date_key_def prod.case by (simp only: e1 e2) blast
  then show ?thesis by simp
qed

lemma datetime_key_less:
  assumes "valid_datetime a" "valid_datetime b"
  shows "datetime_lt a b = (datetime_key a < datetime_key b)"
proof -
  from time_of_day_bounds [OF assms(1)] time_of_day_bounds [OF assms(2)]
  have "(datetime_key a < datetime_key b) =
      (date_key (year a, month a, day a) < date_key (year b, month b, day b) \<or>
       date_key (year a, month a, day a) = date_key (year b, month b, day b) \<and>
       time_of_day a < time_of_day b)"
    unfolding datetime_key_def by (simp only: radix_less)
  also have "\<dots> = datetime_lt a b"
    unfolding date_key_less [OF assms] date_key_equal [OF assms] time_of_day_less [OF assms]
    by (simp add: datetime_lt_def cmp_key_def) blast
  finally show ?thesis by simp
qed

lemma datetime_key_le:
  assumes "valid_datetime a" "valid_datetime b"
  shows "datetime_le a b = (datetime_key a \<le> datetime_key b)"
  using datetime_key_less [OF assms(2) assms(1)]
  by (simp add: datetime_le_def datetime_lt_def not_less)

lemma next_day_step:
  assumes "valid_date x"
  shows "valid_date (next_day x) \<and> date_key x < date_key (next_day x) \<and>
         date_key (next_day x) \<le> date_key x + 4"
proof -
  obtain y m d where x: "x = (y, m, d)" by (cases x) auto
  from days_in_month_bounds [of y m] days_in_month_bounds [of y "m + 1"]
    days_in_month_bounds [of "y + 1" 1] assms
  show ?thesis unfolding x by (simp add: valid_date_def date_key_def)
qed

lemma funpow_next_day:
  assumes "valid_date x"
  shows "valid_date ((next_day ^^ n) x) \<and> date_key x + int n \<le> date_key ((next_day ^^ n) x) \<and>
         date_key ((next_day ^^ n) x) \<le> date_key x + 4 * int n"
proof (induction n)
  case 0
  from assms show ?case by simp
next
  case (Suc n)
  with next_day_step [of "(next_day ^^ n) x"] show ?case by simp
qed

lemma date_key_year:
  assumes "valid_date (y, m, d)"
  shows "y * 372 \<le> date_key (y, m, d) \<and> date_key (y, m, d) \<le> y * 372 + 371"
  using assms days_in_month_bounds [of y m] by (simp add: valid_date_def date_key_def)

lemma time_fields:
  fixes t :: int
  assumes "0 \<le> t" "t < 86400000000"
  shows "0 \<le> t div 3600000000 \<and> t div 3600000000 < 24 \<and>
         ((t div 3600000000 * 60 + t div 60000000 mod 60) * 60 + t div 1000000 mod 60) * 1000000 +
           t mod 1000000 = t"
proof -
  define u where "u = t div 1000000"
  define v where "v = u div 60"
  have "t div 60000000 = t div (1000000 * 60)" by simp
  also have "\<dots> = t div 1000000 div 60" by (rule zdiv_zmult2_eq) simp
  finally have a: "t div 60000000 = v" by (simp add: v_def u_def)
  have "t div 3600000000 = t div (60000000 * 60)" by simp
  also have "\<dots> = t div 60000000 div 60" by (rule zdiv_zmult2_eq) simp
  finally have b: "t div 3600000000 = v div 60" by (simp only: a)
  have "(v div 60 * 60 + v mod 60) * 60 + u mod 60 = u" unfolding v_def by simp
  then have c: "((v div 60 * 60 + v mod 60) * 60 + u mod 60) * 1000000 + t mod 1000000 = t"
    unfolding u_def by simp
  from assms have "0 \<le> t div 3600000000 \<and> t div 3600000000 < 24" by arith
  with c show ?thesis unfolding a b by (simp add: u_def)
qed

lemma add_timedelta_forward:
  assumes v: "valid_datetime dt" and td: "0 \<le> td" "td \<le> 604800000000"
    and room: "year dt \<le> 9998 \<or> td = 0"
  shows "\<exists>r. add_timedelta dt td = Inr r \<and> valid_datetime r \<and> tzinfo r = tzinfo dt \<and>
             datetime_key dt + td \<le> datetime_key r"
proof -
  define total where "total = time_of_day dt + td"
  define n where "n = total div 86400000000"
  define t where "t = total mod 86400000000"
  let ?date = "(year dt, month dt, day dt)"
  from time_of_day_bounds [OF v] td have total: "0 \<le> total" "total < 691200000000"
    by (simp_all add: total_def)
  then have n: "0 \<le> n" "n \<le> 7" unfolding n_def by arith+
  have t: "0 \<le> t" "t < 86400000000" by (simp_all add: t_def)
  have split: "total = n * 86400000000 + t" by (simp add: n_def t_def)
  obtain y' m' d' where date': "(next_day ^^ nat n) ?date = (y', m', d')"
    by (cases "(next_day ^^ nat n) ?date") auto
  from v have "valid_date ?date" by (simp add: valid_date_def valid_datetime_def)
  from funpow_next_day [OF this, of "nat n"] n
  have vd: "valid_date (y', m', d')" and lo: "date_key ?date + n \<le> date_key (y', m', d')"
    and hi: "date_key (y', m', d') \<le> date_key ?date + 4 * n"
    by (simp_all add: date')
  have y': "y' \<le> 9999"
  proof (cases "td = 0")
    case True
    with time_of_day_bounds [OF v] have "n = 0" by (simp add: n_def total_def)
    with date' v show ?thesis by (simp add: valid_datetime_def)
  next
    case False
    with room have "year dt \<le> 9998" by simp
    with date_key_year [OF \<open>valid_date ?date\<close>] date_key_year [OF vd] hi n
    show ?thesis by linarith
  qed
  define r where "r = dt\<lparr>year := y', month := m', day := d',
      hour := t div 3600000000, minute := t div 60000000 mod 60,
      second := t div 1000000 mod 60, microsecond := t mod 1000000\<rparr>"
  from n have shift: "shift_days n ?date = (y', m', d')" by (simp add: shift_days_def date')
  from vd y' have res: "add_timedelta dt td = Inr r"
    by (simp add: add_timedelta_def Let_def shift r_def valid_date_def
        total_def [symmetric] n_def [symmetric] t_def [symmetric])
  from time_fields [OF t] vd y' have vr: "valid_datetime r"
    by (simp add: valid_datetime_def r_def valid_date_def)
  from time_fields [OF t] have tod: "time_of_day r = t"
    by (simp add: time_of_day_def r_def)
  have "datetime_key dt + td = date_key ?date * 86400000000 + total"
    by (simp add: datetime_key_def total_def)
  also have "\<dots> = (date_key ?date + n) * 86400000000 + t"
    by (simp add: split algebra_simps)
  also have "\<dots> \<le> date_key (y', m', d') * 86400000000 + t"
    using lo by simp
  also have "\<dots> = datetime_key r"
    by (simp add: datetime_key_def tod) (simp add: r_def)
  finally have "datetime_key dt + td \<le> datetime_key r" .
  with res vr show ?thesis by (auto simp: r_def)
qed

lemma add_relativedelta_forward:
  assumes v: "valid_datetime cur" and room: "year cur \<le> 9998"
    and rd: "rd = \<lparr>years = 1, months = 0, leapdays = 0, micros = 0\<rparr> \<or>
             rd = \<lparr>years = 0, months = 1, leapdays = 0, micros = 0\<rparr>"
  shows "\<exists>nxt. add_relativedelta cur rd = Inr nxt \<and> valid_datetime nxt \<and>
               tzinfo nxt = tzinfo cur \<and> datetime_key cur < datetime_key nxt"
proof -
  define y where "y = (if months rd \<noteq> 0 \<and> 12 < month cur + months rd
      then year cur + years rd + 1 else year cur + years rd)"
  define m where "m = (if months rd \<noteq> 0 \<and> 12 < month cur + months rd
      then month cur + months rd - 12 else month cur + months rd)"
  define d where "d = min (days_in_month y m) (day cur)"
  define dt' where "dt' = cur\<lparr>year := y, month := m, day := d\<rparr>"
  from v have f: "1 \<le> year cur" "1 \<le> month cur" "month cur \<le> 12" "1 \<le> day cur" "day cur \<le> 31"
    using days_in_month_bounds [of "year cur" "month cur"] by (simp_all add: valid_datetime_def)
  from rd f room have ym: "1 \<le> y \<and> y \<le> 9999 \<and> 1 \<le> m \<and> m \<le> 12"
    by (auto simp: y_def m_def)
  from f days_in_month_bounds [of y m] have dd: "1 \<le> d \<and> d \<le> days_in_month y m \<and> day cur \<le> d + 3"
    by (simp add: d_def min_def)
  from v ym dd have v': "valid_datetime dt'" by (simp add: valid_datetime_def dt'_def)
  from rd f have "year cur * 12 + month cur + 1 \<le> y * 12 + m"
    by (auto simp: y_def m_def)
  with dd have "date_key (year cur, month cur, day cur) < date_key (y, m, d)"
    unfolding date_key_def prod.case by (simp add: algebra_simps)
  then have less: "datetime_key cur < datetime_key dt'"
    by (simp add: datetime_key_def dt'_def time_of_day_def)
  from rd f have "add_relativedelta cur rd = add_timedelta dt' 0"
    using v' by (auto simp: add_relativedelta_def Let_def dt'_def d_def y_def m_def)
  moreover from add_timedelta_forward [OF v', of 0]
  obtain nxt where "add_timedelta dt' 0 = Inr nxt" "valid_datetime nxt" "tzinfo nxt = tzinfo dt'"
      "datetime_key dt' \<le> datetime_key nxt"
    by auto
  ultimately show ?thesis using less by (auto simp: dt'_def)
qed

lemma step_units_cases:
  "unit \<in> set step_units \<Longrightarrow>
     unit = ''microsecond'' \<or> unit = ''millisecond'' \<or> unit = ''second'' \<or> unit = ''minute'' \<or>
     unit = ''hour'' \<or> unit = ''day'' \<or> unit = ''week'' \<or> unit = ''month'' \<or> unit = ''year''"
  by (simp add: step_units_def)

lemma advance_forward:
  assumes v: "valid_datetime cur" and room: "year cur \<le> 9998" and u: "unit \<in> set step_units"
  shows "\<exists>nxt. advance cur unit = Inr nxt \<and> valid_datetime nxt \<and>
               tzinfo nxt = tzinfo cur \<and> datetime_key cur < datetime_key nxt"
proof -
  have timed: ?thesis if a: "advance cur unit = add_timedelta cur td" and td: "0 < td" "td \<le> 604800000000"
    for td
  proof -
    from add_timedelta_forward [OF v, of td] td room
    obtain nxt where "add_timedelta cur td = Inr nxt" "valid_datetime nxt" "tzinfo nxt = tzinfo cur"
        "datetime_key cur + td \<le> datetime_key nxt"
      by auto
    with td a show ?thesis by auto
  qed
  have rel: ?thesis if a: "advance cur unit = add_relativedelta cur rd"
    and rd: "rd = \<lparr>years = 1, months = 0, leapdays = 0, micros = 0\<rparr> \<or>
             rd = \<lparr>years = 0, months = 1, leapdays = 0, micros = 0\<rparr>" for rd
    using add_relativedelta_forward [OF v room rd] a by simp
  from step_units_cases [OF u] show ?thesis
  proof (elim disjE)
    assume "unit = ''microsecond''"
    then show ?thesis by (intro timed [of 1]) (simp_all add: advance_def timedelta_1_def)
  next
    assume "unit = ''millisecond''"
    then show ?thesis by (intro timed [of 1000]) (simp_all add: advance_def timedelta_1_def)
  next
    assume "unit = ''second''"
    then show ?thesis by (intro timed [of 1000000]) (simp_all add: advance_def timedelta_1_def)
  next
    assume "unit = ''minute''"
    then show ?thesis by (intro timed [of 60000000]) (simp_all add: advance_def timedelta_1_def)
  next
    assume "unit = ''hour''"
    then show ?thesis by (intro timed [of 3600000000]) (simp_all add: advance_def timedelta_1_def)
  next
    assume "unit = ''day''"
    then show ?thesis by (intro timed [of 86400000000]) (simp_all add: advance_def timedelta_1_def)
  next
    assume "unit = ''week''"
    then show ?thesis by (intro timed [of 604800000000]) (simp_all add: advance_def timedelta_1_def)
  next
    assume "unit = ''month''"
    then show ?thesis
      by (intro rel [of "\<lparr>years = 0, months = 1, leapdays = 0, micros = 0\<rparr>"])
        (simp_all add: advance_def timedelta_1_def relativedelta_1_def)
  next
    assume "unit = ''year''"
    then show ?thesis
      by (intro rel [of "\<lparr>years = 1, months = 0, leapdays = 0, micros = 0\<rparr>"])
        (simp_all add: advance_def timedelta_1_def relativedelta_1_def)
  qed
qed

lemma datetime_le_year: "datetime_le a b \<Longrightarrow> year a \<le> year b"
  by (auto simp: datetime_le_def cmp_key_def)

lemma range_loop_stop:
  "\<not> datetime_le cur e \<Longrightarrow> range_loop unit e cur acc = Some (Inr acc)"
  by (subst range_loop.simps) simp

lemma range_loop_step:
  "datetime_le cur e \<Longrightarrow> advance cur unit = Inr nxt \<Longrightarrow>
   range_loop unit e cur acc = range_loop unit e nxt (acc @ [cur])"
  by (subst range_loop.simps) simp

lemma range_loop_total:
  assumes e: "valid_datetime e" "year e \<le> 9998" and u: "unit \<in> set step_units"
  shows "valid_datetime cur \<Longrightarrow>
    \<exists>xs. range_loop unit e cur acc = Some (Inr (acc @ xs)) \<and>
      (datetime_le cur e \<longrightarrow> xs \<noteq> [] \<and> hd xs = cur \<and>
         (\<exists>nxt. advance (last xs) unit = Inr nxt \<and> \<not> datetime_le nxt e)) \<and>
      (\<not> datetime_le cur e \<longrightarrow> xs = []) \<and>
      sorted_wrt datetime_lt xs \<and>
      (\<forall>x \<in> set xs. valid_datetime x \<and> tzinfo x = tzinfo cur \<and>
         datetime_key cur \<le> datetime_key x \<and> datetime_le x e)"
proof (induction "nat (datetime_key e + 1 - datetime_key cur)" arbitrary: cur acc rule: less_induct)
  case less
  note v = \<open>valid_datetime cur\<close>
  show ?case
  proof (cases "datetime_le cur e")
    case False
    with range_loop_stop [OF False, of unit acc] show ?thesis
      by (intro exI [of _ "[]"]) simp
  next
    case True
    with datetime_key_le [OF v e(1)] have le: "datetime_key cur \<le> datetime_key e" by simp
    from datetime_le_year [OF True] e(2) have "year cur \<le> 9998" by simp
    from advance_forward [OF v this u]
    obtain nxt where nxt: "advance cur unit = Inr nxt" "valid_datetime nxt"
        "tzinfo nxt = tzinfo cur" "datetime_key cur < datetime_key nxt"
      by (elim exE conjE)
    from le nxt(4) have "nat (datetime_key e + 1 - datetime_key nxt) <
        nat (datetime_key e + 1 - datetime_key cur)"
      by simp
    from less.hyps [OF this nxt(2), of "acc @ [cur]"]
    obtain xs where run': "range_loop unit e nxt (acc @ [cur]) = Some (Inr ((acc @ [cur]) @ xs))"
      and first: "datetime_le nxt e \<longrightarrow> xs \<noteq> [] \<and> hd xs = nxt \<and>
              (\<exists>n. advance (last xs) unit = Inr n \<and> \<not> datetime_le n e)"
      and none: "\<not> datetime_le nxt e \<longrightarrow> xs = []"
      and sorted: "sorted_wrt datetime_lt xs"
      and all: "\<forall>x \<in> set xs. valid_datetime x \<and> tzinfo x = tzinfo nxt \<and>
           datetime_key nxt \<le> datetime_key x \<and> datetime_le x e"
      by (elim exE conjE)
    from range_loop_step [OF True nxt(1), of acc] run'
    have run: "range_loop unit e cur acc = Some (Inr (acc @ (cur # xs)))" by simp
    have stop: "\<exists>n. advance (last (cur # xs)) unit = Inr n \<and> \<not> datetime_le n e"
    proof (cases "xs = []")
      case True
      with first have "\<not> datetime_le nxt e" by (cases "datetime_le nxt e") simp_all
      with True nxt(1) show ?thesis by simp
    next
      case False
      with none have "datetime_le nxt e" by (cases "datetime_le nxt e") simp_all
      with first False show ?thesis by simp
    qed
    have above: "datetime_lt cur x" if "x \<in> set xs" for x
    proof -
      from all that have "valid_datetime x" "datetime_key nxt \<le> datetime_key x" by simp_all
      with nxt(4) datetime_key_less [OF v, of x] show ?thesis by simp
    qed
    have each: "valid_datetime x \<and> tzinfo x = tzinfo cur \<and>
        datetime_key cur \<le> datetime_key x \<and> datetime_le x e" if "x \<in> set (cur # xs)" for x
    proof (cases "x = cur")
      case True
      with v \<open>datetime_le cur e\<close> show ?thesis by simp
    next
      case False
      with that have "x \<in> set xs" by simp
      with all have "valid_datetime x \<and> tzinfo x = tzinfo nxt \<and>
           datetime_key nxt \<le> datetime_key x \<and> datetime_le x e"
        by (rule_tac bspec)
      with nxt(3,4) show ?thesis by simp
    qed
    from above sorted have srt: "sorted_wrt datetime_lt (cur # xs)" by simp
    show ?thesis
    proof (intro exI [of _ "cur # xs"] conjI impI ballI)
      show "range_loop unit e cur acc = Some (Inr (acc @ cur # xs))" by (rule run)
      show "cur # xs \<noteq> []" by simp
      show "hd (cur # xs) = cur" by simp
      show "\<exists>nxt. advance (last (cur # xs)) unit = Inr nxt \<and> \<not> datetime_le nxt e"
        by (rule stop)
      show "cur # xs = []" if "\<not> datetime_le cur e" using that True by simp
      show "sorted_wrt datetime_lt (cur # xs)" by (rule srt)
      show "valid_datetime x" if "x \<in> set (cur # xs)" for x using each [OF that] by simp
      show "tzinfo x = tzinfo cur" if "x \<in> set (cur # xs)" for x using each [OF that] by simp
      show "datetime_key cur \<le> datetime_key x" if "x \<in> set (cur # xs)" for x
        using each [OF that] by simp
      show "datetime_le x e" if "x \<in> set (cur # xs)" for x using each [OF that] by simp
    qed
  qed
qed

lemma replace_tzinfo_None_same:
  "valid_datetime (replace_tzinfo_None d) = valid_datetime d"
  "year (replace_tzinfo_None d) = year d"
  "cmp_key (replace_tzinfo_None d) = cmp_key d"
  by (simp_all add: replace_tzinfo_None_def valid_datetime_def cmp_key_def)

text \<open>
  Claim C1, as stated: the range is never empty and its last element is not before the
  end. The loop runs while the current datetime is not after the end, so the last
  element is not after the end: with a step of one day from 1 January to noon of
  2 January the range ends at midnight of 2 January, before the end; and from 3 January
  to 1 January the range is empty.
\<close>

theorem range_stops_before_end:
  "generate_datetime_range (midnight 2021 1 1) ((midnight 2021 1 2)\<lparr>hour := 12\<rparr>) ''day'' =
     Some (Inr [midnight 2021 1 1, midnight 2021 1 2]) \<and>
   datetime_lt (last [midnight 2021 1 1, midnight 2021 1 2]) ((midnight 2021 1 2)\<lparr>hour := 12\<rparr>) \<and>
   \<not> datetime_le ((midnight 2021 1 2)\<lparr>hour := 12\<rparr>) (last [midnight 2021 1 1, midnight 2021 1 2]) \<and>
   generate_datetime_range (midnight 2021 1 3) (midnight 2021 1 1) ''day'' = Some (Inr [])"
  by (simp add: generate_datetime_range_def range_loop.simps midnight_def
      replace_tzinfo_None_def datetime_le_def datetime_lt_def cmp_key_def advance_def
      timedelta_1_def add_timedelta_def time_of_day_def
      shift_days_def days_in_month_def isleap_def Let_def)

text \<open>
  Claim C1, amended: for valid start and end datetimes with the end before the year
  9999, and a unit among microsecond, millisecond, second, minute, hour, day, week,
  month and year, the loop ends and returns a strictly increasing list of naive
  datetimes, none after the end. When the start (without its time zone) is not after the end, the list
  is not empty, its first element is the start without its time zone, its last element
  is not after the end, and one more step from the last element leads past the end.
  When the start is after the end, the list is empty.
\<close>

theorem datetime_range_up_to_end:
  assumes "valid_datetime start_datetime" and "valid_datetime end_datetime"
    and "year end_datetime < 9999" and "unit \<in> set step_units"
  shows "\<exists>xs. generate_datetime_range start_datetime end_datetime unit = Some (Inr xs) \<and>
     (datetime_le (replace_tzinfo_None start_datetime) (replace_tzinfo_None end_datetime) \<longrightarrow>
        xs \<noteq> [] \<and> hd xs = replace_tzinfo_None start_datetime \<and>
        datetime_le (last xs) (replace_tzinfo_None end_datetime) \<and>
        (\<exists>nxt. advance (last xs) unit = Inr nxt \<and>
           datetime_lt (replace_tzinfo_None end_datetime) nxt)) \<and>
     (datetime_lt (replace_tzinfo_None end_datetime) (replace_tzinfo_None start_datetime) \<longrightarrow>
        xs = []) \<and>
     sorted_wrt datetime_lt xs \<and>
     (\<forall>x \<in> set xs. datetime_le x (replace_tzinfo_None end_datetime) \<and> tzinfo x = None)"
proof -
  let ?s = "replace_tzinfo_None start_datetime" and ?e = "replace_tzinfo_None end_datetime"
  from assms have e: "valid_datetime ?e" "year ?e \<le> 9998" and s: "valid_datetime ?s"
    by (simp_all add: replace_tzinfo_None_same)
  from range_loop_total [OF e assms(4) s, of "[]"]
  obtain xs where run: "range_loop unit ?e ?s [] = Some (Inr ([] @ xs))"
    and first: "datetime_le ?s ?e \<longrightarrow> xs \<noteq> [] \<and> hd xs = ?s \<and>
         (\<exists>nxt. advance (last xs) unit = Inr nxt \<and> \<not> datetime_le nxt ?e)"
    and none: "\<not> datetime_le ?s ?e \<longrightarrow> xs = []"
    and sorted: "sorted_wrt datetime_lt xs"
    and all: "\<forall>x \<in> set xs. valid_datetime x \<and> tzinfo x = tzinfo ?s \<and>
         datetime_key ?s \<le> datetime_key x \<and> datetime_le x ?e"
    by (elim exE conjE)
  have not_le: "(\<not> datetime_le a b) = datetime_lt b a" for a b
    by (simp add: datetime_le_def datetime_lt_def)
  show ?thesis
  proof (intro exI [of _ xs] conjI impI ballI)
    show "generate_datetime_range start_datetime end_datetime unit = Some (Inr xs)"
      using run by (simp add: generate_datetime_range_def)
    show "sorted_wrt datetime_lt xs" by (rule sorted)
    show "datetime_le x ?e" if "x \<in> set xs" for x using all that by simp
    show "tzinfo x = None" if "x \<in> set xs" for x
      using all that by (simp add: replace_tzinfo_None_def)
    show "xs = []" if "datetime_lt ?e ?s" using that none by (simp add: not_le)
  next
    assume le: "datetime_le ?s ?e"
    with first show ne: "xs \<noteq> []" and "hd xs = ?s" by simp_all
    from ne have "last xs \<in> set xs" by simp
    with all show "datetime_le (last xs) ?e" by simp
    from le first show "\<exists>nxt. advance (last xs) unit = Inr nxt \<and> datetime_lt ?e nxt"
      by (simp add: not_le)
  qed
qed

theorem datetime_range_up_to_end_witness:
  "valid_datetime (midnight 2021 1 1) \<and> valid_datetime ((midnight 2021 1 2)\<lparr>hour := 12\<rparr>) \<and>
   year ((midnight 2021 1 2)\<lparr>hour := 12\<rparr>) < 9999 \<and> ''day'' \<in> set step_units \<and>
   datetime_le (replace_tzinfo_None (midnight 2021 1 1))
     (replace_tzinfo_None ((midnight 2021 1 2)\<lparr>hour := 12\<rparr>)) \<and>
   (\<exists>xs. generate_datetime_range (midnight 2021 1 1) ((midnight 2021 1 2)\<lparr>hour := 12\<rparr>) ''day'' =
           Some (Inr xs) \<and>
         xs \<noteq> [] \<and> hd xs = replace_tzinfo_None (midnight 2021 1 1) \<and>
         datetime_le (last xs) (replace_tzinfo_None ((midnight 2021 1 2)\<lparr>hour := 12\<rparr>)) \<and>
         sorted_wrt datetime_lt xs) \<and>
   valid_datetime (midnight 2021 1 3) \<and>
   datetime_lt (replace_tzinfo_None (midnight 2021 1 1)) (replace_tzinfo_None (midnight 2021 1 3)) \<and>
   generate_datetime_range (midnight 2021 1 3) (midnight 2021 1 1) ''day'' = Some (Inr [])"
proof -
  let ?s = "midnight 2021 1 1" and ?e = "(midnight 2021 1 2)\<lparr>hour := 12\<rparr>"
  have h1: "valid_datetime ?s" "valid_datetime (midnight 2021 1 3)"
    by (simp_all add: valid_datetime_def midnight_def days_in_month_def)
  have h2: "valid_datetime ?e" by (simp add: valid_datetime_def midnight_def days_in_month_def)
  have h3: "year ?e < 9999" "year ?s < 9999" by (simp_all add: midnight_def)
  have h4: "''day'' \<in> set step_units" by (simp add: step_units_def)
  have h5: "datetime_le (replace_tzinfo_None ?s) (replace_tzinfo_None ?e)"
    by (simp add: datetime_le_def cmp_key_def replace_tzinfo_None_def midnight_def)
  have h6: "datetime_lt (replace_tzinfo_None ?s) (replace_tzinfo_None (midnight 2021 1 3))"
    by (simp add: datetime_lt_def cmp_key_def replace_tzinfo_None_def midnight_def)
  from datetime_range_up_to_end [OF h1(1) h2 h3(1) h4] h5
  have a: "\<exists>xs. generate_datetime_range ?s ?e ''day'' = Some (Inr xs) \<and>
         xs \<noteq> [] \<and> hd xs = replace_tzinfo_None ?s \<and>
         datetime_le (last xs) (replace_tzinfo_None ?e) \<and> sorted_wrt datetime_lt xs"
    by blast
  from datetime_range_up_to_end [OF h1(2) h1(1) h3(2) h4] h6
  have b: "generate_datetime_range (midnight 2021 1 3) ?s ''day'' = Some (Inr [])"
    by blast
  from h1 h2 h3(1) h4 h5 h6 a b show ?thesis by (intro conjI)
qed

subsection \<open>Eligible columns\<close>

lemma item_in_range: "i < length xs \<Longrightarrow> item xs i = Inr (xs ! i)"
  by (induction xs i rule: item.induct) auto

lemma values_loop_none:
  "(\<And>val. val \<in> set vals \<Longrightarrow>
      2 \<le> length (split val ''.'') \<and> \<not> maps_into target_feature_properties val) \<Longrightarrow>
   values_loop target_feature_properties vals columns = Inr columns"
proof (induction vals)
  case Nil
  then show ?case by simp
next
  case (Cons val vals)
  from Cons.prems [of val]
  have len: "2 \<le> length (split val ''.'')" and no: "\<not> maps_into target_feature_properties val"
    by simp_all
  from len have it: "item (split val ''.'') 1 = Inr (split val ''.'' ! 1)"
    by (intro item_in_range) simp
  have rest: "values_loop target_feature_properties vals columns = Inr columns"
    using Cons.IH Cons.prems by simp
  from no it rest show ?case
    by (auto simp: maps_into_def Let_def split: option.splits if_splits)
qed

lemma sensors_loop_none:
  "(\<And>s val. s \<in> set ss \<Longrightarrow> selected target_sensors s \<Longrightarrow>
      val \<in> snd ` set (observed_properties s) \<Longrightarrow>
      2 \<le> length (split val ''.'') \<and> \<not> maps_into target_feature_properties val) \<Longrightarrow>
   sensors_loop target_sensors target_feature_properties ss columns = Inr columns"
proof (induction ss)
  case Nil
  then show ?case by simp
next
  case (Cons s ss)
  have rest: "sensors_loop target_sensors target_feature_properties ss columns = Inr columns"
  proof (rule Cons.IH)
    fix s' val
    assume "s' \<in> set ss" and "selected target_sensors s'"
      and "val \<in> snd ` set (observed_properties s')"
    then show "2 \<le> length (split val ''.'') \<and> \<not> maps_into target_feature_properties val"
      using Cons.prems [of s' val] by simp
  qed
  show ?case
  proof (cases "selected target_sensors s")
    case True
    then have "values_loop target_feature_properties (map snd (observed_properties s)) columns =
        Inr columns"
      using Cons.prems [of s] by (intro values_loop_none) auto
    with True rest show ?thesis by (simp add: selected_def split: if_splits)
  next
    case False
    with rest show ?thesis by (simp add: selected_def split: if_splits)
  qed
qed

text \<open>
  Claim C9: take a request whose parameters parse, and a node of the metadata store. If
  no mapping value of a selected sensor of the node maps into the request (the values
  being dotted \<^verbatim>\<open>feature.property\<close> strings), then \<^verbatim>\<open>_valid_columns\<close> returns the empty
  set, and \<^verbatim>\<open>aggregate\<close> raises the \<^verbatim>\<open>ValueError\<close> of contradictory filters without any
  call to the observation store.
\<close>

theorem contradictory_filters_raised:
  assumes "map_of data ''start_datetime'' = Some start_text"
    and "date_parse env start_text = Inr start_parsed"
    and "map_of data ''agg_unit'' = Some u"
    and "zero_out_datetime start_parsed u = Inr start_zeroed"
    and "map_of data ''end_datetime'' = Some end_text"
    and "date_parse env end_text = Inr end_parsed"
    and "map_of data ''feature'' = Some feature_text"
    and "features_loop (split feature_text '','') [] feature_text = Inr (tfp, last_feature)"
    and "target_sensors =
           (case map_of data ''sensors'' of
              None \<Rightarrow> None
            | Some text \<Rightarrow> if text = [] then None else Some (split text '',''))"
    and "map_of data ''node_id'' = Some node"
    and "node_sensors env node = Some ss"
    and "\<forall>s \<in> set ss. selected target_sensors s \<longrightarrow>
           (\<forall>val \<in> snd ` set (observed_properties s).
              2 \<le> length (split val ''.'') \<and> \<not> maps_into tfp val)"
  shows "valid_columns (node_sensors env) (Some node) target_sensors tfp = Inr {} \<and>
         aggregate env data agg_label f = Some ([], Inl (ValueError contradictory_filters))"
proof -
  have "sensors_loop target_sensors tfp ss {} = Inr {}"
    using assms(12) by (intro sensors_loop_none) blast
  then have cols: "valid_columns (node_sensors env) (Some node) target_sensors tfp = Inr {}"
    using assms(11) by (simp add: valid_columns_def)
  have "aggregate env data agg_label f = Some ([], Inl (ValueError contradictory_filters))"
    unfolding aggregate_def Let_def
    by (simp only: assms(1-8,10) assms(9) [symmetric] cols option.case sum.case prod.case
        if_True refl)
  with cols show ?thesis by simp
qed

theorem contradictory_filters_raised_witness:
  "aggregate example_env
     [(''node_id'', ''node_a''), (''feature'', ''temperature''),
      (''start_datetime'', ''2021-01-01T00:00:00''), (''end_datetime'', ''2021-01-03T00:00:00''),
      (''agg_unit'', ''day''), (''sensors'', ''hmc5883l'')] ''avg'' Avg =
   Some ([], Inl (ValueError contradictory_filters)) \<and>
   valid_columns example_nodes (Some ''node_a'') (Some [''hmc5883l''])
     [(''temperature'', None)] = Inr {}"
proof -
  let ?data = "[(''node_id'', ''node_a''), (''feature'', ''temperature''),
      (''start_datetime'', ''2021-01-01T00:00:00''), (''end_datetime'', ''2021-01-03T00:00:00''),
      (''agg_unit'', ''day''), (''sensors'', ''hmc5883l'')]"
  have h1: "map_of ?data ''start_datetime'' = Some ''2021-01-01T00:00:00''" by simp
  have h2: "date_parse example_env ''2021-01-01T00:00:00'' = Inr (midnight 2021 1 1)"
    by (simp add: example_env_def example_date_parse_def)
  have h3: "map_of ?data ''agg_unit'' = Some ''day''" by simp
  have v: "valid_datetime (midnight 2021 1 1)"
    by (simp add: valid_datetime_def midnight_def days_in_month_def)
  have h4: "zero_out_datetime (midnight 2021 1 1) ''day'' = Inr (midnight 2021 1 1)"
    using zero_out_datetime_cases(3) [OF v] by (simp add: midnight_def)
  have h5: "map_of ?data ''end_datetime'' = Some ''2021-01-03T00:00:00''" by simp
  have h6: "date_parse example_env ''2021-01-03T00:00:00'' = Inr (midnight 2021 1 3)"
    by (simp add: example_env_def example_date_parse_def)
  have h7: "map_of ?data ''feature'' = Some ''temperature''" by simp
  have h8: "features_loop (split ''temperature'' '','') [] ''temperature'' =
      Inr ([(''temperature'', None)], ''temperature'')"
    by (simp add: split_def)
  have h9: "Some [''hmc5883l''] =
      (case map_of ?data ''sensors'' of
         None \<Rightarrow> None
       | Some text \<Rightarrow> if text = [] then None else Some (split text '',''))"
    by (simp add: split_def)
  have h10: "map_of ?data ''node_id'' = Some ''node_a''" by simp
  have h11: "node_sensors example_env ''node_a'' = Some example_sensors"
    by (simp add: example_env_def example_nodes_def)
  have h12: "\<forall>s \<in> set example_sensors. selected (Some [''hmc5883l'']) s \<longrightarrow>
      (\<forall>val \<in> snd ` set (observed_properties s).
         2 \<le> length (split val ''.'') \<and> \<not> maps_into [(''temperature'', None)] val)"
    by (simp add: example_sensors_def selected_def truthy_def members_def maps_into_def
        split_def split0_def)
  have nodes: "node_sensors example_env = example_nodes" by (simp add: example_env_def)
  from contradictory_filters_raised [OF h1 h2 h3 h4 h5 h6 h7 h8 h9 h10 h11 h12, of "''avg''" Avg]
  show ?thesis by (simp add: nodes)
qed

subsection \<open>One window, one query\<close>

lemma apply_loop_closed:
  "apply_loop ex table selects dts is (sent, aggregates) =
     (sent @ map (window_query table selects dts) is,
      aggregates @
        concat (map (\<lambda>i. if ex (window_query table selects dts i) \<noteq> []
                           then ex (window_query table selects dts i)
                           else empty_placeholder dts i) is))"
  by (induction "is" arbitrary: sent aggregates) (simp_all add: Let_def)

lemma length_concat_ge:
  "(\<And>x. x \<in> set xs \<Longrightarrow> g x \<noteq> []) \<Longrightarrow> length xs \<le> length (concat (map g xs))"
proof (induction xs)
  case Nil
  then show ?case by simp
next
  case (Cons x xs)
  from Cons.prems [of x] have "1 \<le> length (g x)" by (cases "g x") auto
  moreover have "length xs \<le> length (concat (map g xs))"
    using Cons.IH Cons.prems by simp
  ultimately show ?case by simp
qed

lemma length_concat_eq:
  "(\<And>x. x \<in> set xs \<Longrightarrow> length (g x) = 1) \<Longrightarrow> length (concat (map g xs)) = length xs"
  by (induction xs) simp_all

lemma digit_not_plus: "digit n \<noteq> CHR ''+''"
proof -
  have "''0123456789'' ! (n mod 10) \<in> set ''0123456789''"
    by (rule nth_mem) simp
  then show ?thesis by (auto simp: digit_def)
qed

lemma zfill_no_plus: "CHR ''+'' \<notin> set (zfill w n)"
  using digit_not_plus by (fastforce simp: zfill_def)

lemma isoformat_naive_no_plus: "tzinfo d = None \<Longrightarrow> CHR ''+'' \<notin> set (isoformat d)"
  by (simp add: isoformat_def zfill_no_plus)

lemma str_contains_char: "str_contains s [c] \<Longrightarrow> c \<in> set s"
  by (induction s) auto

lemma split0_no_sep:
  assumes "c \<notin> set s"
  shows "split0 s [c] = s"
proof -
  from assms have "\<not> str_contains s [c]" using str_contains_char by blast
  then have "split_from [c] [] s = [s]" using split_from_no_sep [of s "[c]" "[]"] by simp
  then show ?thesis by (simp add: split0_def split_def)
qed

lemma format_loop_length:
  "format_loop agg_label aggregates results = Inr out \<Longrightarrow>
   length out = length results + length aggregates"
proof (induction aggregates arbitrary: results)
  case Nil
  then show ?case by simp
next
  case (Cons agg aggregates)
  then show ?case by (cases "format_row agg_label agg []") auto
qed

text \<open>
  Claim C2, as stated: the output has exactly one record per window. With the unit
  \<^verbatim>\<open>month\<close> and a start on the 15th (the day is not zeroed), the one window runs from
  15 January to 15 February; readings on 20 January and 10 February fall into two
  \<^verbatim>\<open>date_trunc\<close> groups, the query returns two rows, and both are output.
\<close>

theorem window_with_two_records:
  "generate_datetime_range (midnight 2021 1 15) (midnight 2021 2 20) ''month'' =
     Some (Inr [midnight 2021 1 15, midnight 2021 2 15]) \<and>
   aggregate example_env
     [(''node_id'', ''node_a''), (''feature'', ''temperature''),
      (''start_datetime'', ''2021-01-15T00:00:00''), (''end_datetime'', ''2021-02-20T00:00:00''),
      (''agg_unit'', ''month'')] ''avg'' Avg =
     Some ([Reflect ''temperature'',
            Execute \<lparr>from_table = ''temperature'',
                     select_list = [Date_trunc ''month'', Agg Avg ''temperature'',
                                    Count ''temperature''],
                     lower_bound = midnight 2021 1 15, upper_bound = midnight 2021 2 15\<rparr>],
           Inr [[(''time_bucket'', Scalar (Timestamp (midnight 2021 1 1))),
                 (''temperature'', Nested [(''avg'', Float (Avg, [3])), (''count'', Integer 1)])],
                [(''time_bucket'', Scalar (Timestamp (midnight 2021 2 1))),
                 (''temperature'', Nested [(''avg'', Float (Avg, [5])), (''count'', Integer 1)])]])"
proof -
  let ?data = "[(''node_id'', ''node_a''), (''feature'', ''temperature''),
      (''start_datetime'', ''2021-01-15T00:00:00''), (''end_datetime'', ''2021-02-20T00:00:00''),
      (''agg_unit'', ''month'')]"
  have v: "valid_datetime (midnight 2021 1 15)"
    by (simp add: valid_datetime_def midnight_def days_in_month_def)
  have zero: "zero_out_datetime (midnight 2021 1 15) ''month'' = Inr (midnight 2021 1 15)"
    using zero_out_datetime_cases(2) [OF v] by (simp add: midnight_def)
  have range: "generate_datetime_range (midnight 2021 1 15) (midnight 2021 2 20) ''month'' =
      Some (Inr [midnight 2021 1 15, midnight 2021 2 15])"
    by (simp add: generate_datetime_range_def range_loop.simps midnight_def
        replace_tzinfo_None_def datetime_le_def cmp_key_def advance_def timedelta_1_def
        relativedelta_1_def add_relativedelta_def add_timedelta_def time_of_day_def
        shift_days_def days_in_month_def isleap_def valid_datetime_def Let_def)
  have features: "features_loop (split ''temperature'' '','') [] ''temperature'' =
      Inr ([(''temperature'', None)], ''temperature'')"
    by (simp add: split_def)
  have low: "lower ''temperature'' = ''temperature''" by code_simp
  have columns: "valid_columns example_nodes (Some ''node_a'') None [(''temperature'', None)] =
      Inr {''temperature''}"
    by (simp add: valid_columns_def example_nodes_def example_sensors_def truthy_def
        members_def split_def split0_def low Let_def)
  have selects: "generate_aggregate_selects example_obs_table {''temperature''} Avg ''month'' =
      [Date_trunc ''month'', Agg Avg ''temperature'', Count ''temperature'']"
    by (simp add: generate_aggregate_selects_def example_obs_table_def meta_columns_def
        split_def split0_def)
  have rows: "apply_aggregates (example_execute example_readings) example_obs_table
      [Date_trunc ''month'', Agg Avg ''temperature'', Count ''temperature'']
      [midnight 2021 1 15, midnight 2021 2 15] =
      ([\<lparr>from_table = ''temperature'',
         select_list = [Date_trunc ''month'', Agg Avg ''temperature'', Count ''temperature''],
         lower_bound = midnight 2021 1 15, upper_bound = midnight 2021 2 15\<rparr>],
       [[(''time_bucket'', Timestamp (midnight 2021 1 1)),
         (''temperature'', Float (Avg, [3])), (''temperature_count'', Integer 1)],
        [(''time_bucket'', Timestamp (midnight 2021 2 1)),
         (''temperature'', Float (Avg, [5])), (''temperature_count'', Integer 1)]])"
    by code_simp
  have formatted: "format_aggregates
      [[(''time_bucket'', Timestamp (midnight 2021 1 1)),
        (''temperature'', Float (Avg, [3::int])), (''temperature_count'', Integer 1)],
       [(''time_bucket'', Timestamp (midnight 2021 2 1)),
        (''temperature'', Float (Avg, [5])), (''temperature_count'', Integer 1)]] ''avg'' =
      Inr [[(''time_bucket'', Scalar (Timestamp (midnight 2021 1 1))),
            (''temperature'', Nested [(''avg'', Float (Avg, [3])), (''count'', Integer 1)])],
           [(''time_bucket'', Scalar (Timestamp (midnight 2021 2 1))),
            (''temperature'', Nested [(''avg'', Float (Avg, [5])), (''count'', Integer 1)])]]"
    by (simp add: format_aggregates_def set_nested_def split_def split0_def)
  have "aggregate example_env ?data ''avg'' Avg =
      Some ([Reflect ''temperature'',
            Execute \<lparr>from_table = ''temperature'',
                     select_list = [Date_trunc ''month'', Agg Avg ''temperature'',
                                    Count ''temperature''],
                     lower_bound = midnight 2021 1 15, upper_bound = midnight 2021 2 15\<rparr>],
           Inr [[(''time_bucket'', Scalar (Timestamp (midnight 2021 1 1))),
                 (''temperature'', Nested [(''avg'', Float (Avg, [3])), (''count'', Integer 1)])],
                [(''time_bucket'', Scalar (Timestamp (midnight 2021 2 1))),
                 (''temperature'', Nested [(''avg'', Float (Avg, [5])), (''count'', Integer 1)])]])"
    by (simp add: aggregate_def example_env_def example_date_parse_def example_reflect_def
        zero range features columns selects rows formatted split_def split0_def Let_def)
  with range show ?thesis by simp
qed

text \<open>
  Claim C2, amended: one query is sent per window, in order. A window whose query
  returns rows contributes all of them; a window whose query returns none contributes
  the one placeholder record, which holds the label (the \<^verbatim>\<open>isoformat\<close> of the window's
  lower boundary, cut at the first \<^verbatim>\<open>+\<close>; for a naive boundary the whole
  \<^verbatim>\<open>isoformat\<close>) and a count of 0 and nothing else. So the output has at least one
  record per window, and exactly one per window when no query returns more than one row.
  Formatting keeps the number of records.
\<close>

theorem records_per_window:
  "fst (apply_aggregates ex table selects dts) =
     map (window_query table selects dts) [0..<length dts - 1] \<and>
   snd (apply_aggregates ex table selects dts) =
     concat (map (\<lambda>i. if ex (window_query table selects dts i) \<noteq> []
                        then ex (window_query table selects dts i)
                        else empty_placeholder dts i) [0..<length dts - 1]) \<and>
   length dts - 1 \<le> length (snd (apply_aggregates ex table selects dts)) \<and>
   ((\<forall>i < length dts - 1. length (ex (window_query table selects dts i)) \<le> 1) \<longrightarrow>
      length (snd (apply_aggregates ex table selects dts)) = length dts - 1) \<and>
   (tzinfo (dts ! k) = None \<longrightarrow>
      empty_placeholder dts k =
        [[(''time_bucket'', Text (isoformat (dts ! k))), (''count'', Integer 0)]]) \<and>
   format_aggregates (empty_placeholder dts k) agg_label =
     Inr [[(''time_bucket'', Scalar (Text (split0 (isoformat (dts ! k)) ''+''))),
           (''count'', Scalar (Integer 0))]] \<and>
   (format_aggregates rows agg_label = Inr out \<longrightarrow> length out = length rows)"
proof -
  let ?g = "\<lambda>i. if ex (window_query table selects dts i) \<noteq> []
                 then ex (window_query table selects dts i)
                 else empty_placeholder dts i"
  have closed: "apply_aggregates ex table selects dts =
      (map (window_query table selects dts) [0..<length dts - 1],
       concat (map ?g [0..<length dts - 1]))"
    by (simp add: apply_aggregates_def apply_loop_closed)
  have ge: "length dts - 1 \<le> length (concat (map ?g [0..<length dts - 1]))"
    using length_concat_ge [of "[0..<length dts - 1]" ?g]
    by (simp add: empty_placeholder_def)
  have eq: "length (concat (map ?g [0..<length dts - 1])) = length dts - 1"
    if small: "\<forall>i < length dts - 1. length (ex (window_query table selects dts i)) \<le> 1"
  proof -
    have "length (?g i) = 1" if "i \<in> set [0..<length dts - 1]" for i
    proof (cases "ex (window_query table selects dts i)")
      case Nil
      then show ?thesis by (simp add: empty_placeholder_def)
    next
      case (Cons r rs)
      moreover from that small have "length (ex (window_query table selects dts i)) \<le> 1"
        by simp
      ultimately show ?thesis by simp
    qed
    then show ?thesis
      using length_concat_eq [of "[0..<length dts - 1]" ?g] by simp
  qed
  have label: "tzinfo (dts ! k) = None \<longrightarrow> empty_placeholder dts k =
      [[(''time_bucket'', Text (isoformat (dts ! k))), (''count'', Integer 0)]]"
    by (simp add: empty_placeholder_def split0_no_sep isoformat_naive_no_plus)
  have plain: "format_aggregates (empty_placeholder dts k) agg_label =
      Inr [[(''time_bucket'', Scalar (Text (split0 (isoformat (dts ! k)) ''+''))),
            (''count'', Scalar (Integer 0))]]"
    by (simp add: format_aggregates_def empty_placeholder_def)
  have kept: "format_aggregates rows agg_label = Inr out \<longrightarrow> length out = length rows"
    using format_loop_length [of agg_label rows "[]" out]
    by (simp add: format_aggregates_def)
  have sent: "fst (apply_aggregates ex table selects dts) =
      map (window_query table selects dts) [0..<length dts - 1]"
    by (simp add: closed)
  have rows: "snd (apply_aggregates ex table selects dts) =
      concat (map ?g [0..<length dts - 1])"
    by (simp add: closed)
  have least: "length dts - 1 \<le> length (snd (apply_aggregates ex table selects dts))"
    using ge by (simp add: closed)
  have exact: "(\<forall>i < length dts - 1. length (ex (window_query table selects dts i)) \<le> 1) \<longrightarrow>
      length (snd (apply_aggregates ex table selects dts)) = length dts - 1"
    using eq by (simp add: closed)
  show ?thesis by (intro conjI) fact+
qed

theorem records_per_window_witness:
  "length (example_execute example_readings
      (window_query example_obs_table [Date_trunc ''day'']
         [midnight 2021 1 1, midnight 2021 1 2, midnight 2021 1 3] 0)) \<le> 1 \<and>
   length (example_execute example_readings
      (window_query example_obs_table [Date_trunc ''day'']
         [midnight 2021 1 1, midnight 2021 1 2, midnight 2021 1 3] 1)) \<le> 1 \<and>
   tzinfo ([midnight 2021 1 1, midnight 2021 1 2, midnight 2021 1 3] ! 0) = None \<and>
   length (snd (apply_aggregates (example_execute example_readings) example_obs_table
      [Date_trunc ''day''] [midnight 2021 1 1, midnight 2021 1 2, midnight 2021 1 3])) = 2 \<and>
   (empty_placeholder [midnight 2021 1 1, midnight 2021 1 2, midnight 2021 1 3] 0
      :: (agg_fn \<times> int list) row list) =
     [[(''time_bucket'', Text (isoformat (midnight 2021 1 1))), (''count'', Integer 0)]] \<and>
   format_aggregates
     (empty_placeholder [midnight 2021 1 1, midnight 2021 1 2, midnight 2021 1 3] 0
        :: (agg_fn \<times> int list) row list) ''avg'' =
     Inr [[(''time_bucket'', Scalar (Text (split0 (isoformat (midnight 2021 1 1)) ''+''))),
           (''count'', Scalar (Integer 0))]] \<and>
   length [[(''time_bucket'',
             Scalar (Text (split0 (isoformat (midnight 2021 1 1)) ''+'') :: (agg_fn \<times> int list) cell)),
            (''count'', Scalar (Integer 0))]] =
     length (empty_placeholder [midnight 2021 1 1, midnight 2021 1 2, midnight 2021 1 3] 0
        :: (agg_fn \<times> int list) row list)"
proof -
  let ?dts = "[midnight 2021 1 1, midnight 2021 1 2, midnight 2021 1 3]"
  let ?ex = "example_execute example_readings"
  have h0: "length (?ex (window_query example_obs_table [Date_trunc ''day''] ?dts 0)) \<le> 1"
    by code_simp
  have h1: "length (?ex (window_query example_obs_table [Date_trunc ''day''] ?dts 1)) \<le> 1"
    by code_simp
  have small: "\<forall>i < length ?dts - 1.
      length (?ex (window_query example_obs_table [Date_trunc ''day''] ?dts i)) \<le> 1"
  proof (intro allI impI)
    fix i :: nat
    assume "i < length ?dts - 1"
    then have "i = 0 \<or> i = 1" by auto
    with h0 h1 show "length (?ex (window_query example_obs_table [Date_trunc ''day''] ?dts i)) \<le> 1"
      by auto
  qed
  have tz: "tzinfo (?dts ! 0) = None" by (simp add: midnight_def)
  note inst = records_per_window [where ex = ?ex and table = example_obs_table
      and selects = "[Date_trunc ''day'']" and dts = ?dts and k = 0 and agg_label = "''avg''"
      and rows = "empty_placeholder ?dts 0"
      and out = "[[(''time_bucket'', Scalar (Text (split0 (isoformat (midnight 2021 1 1)) ''+''))),
                   (''count'', Scalar (Integer 0))]]"]
  from inst small have "length (snd (apply_aggregates ?ex example_obs_table
      [Date_trunc ''day''] ?dts)) = length ?dts - 1"
    by blast
  moreover from inst tz have "(empty_placeholder ?dts 0 :: (agg_fn \<times> int list) row list) =
      [[(''time_bucket'', Text (isoformat (?dts ! 0))), (''count'', Integer 0)]]"
    by blast
  moreover from inst have "format_aggregates
      (empty_placeholder ?dts 0 :: (agg_fn \<times> int list) row list) ''avg'' =
      Inr [[(''time_bucket'', Scalar (Text (split0 (isoformat (?dts ! 0)) ''+''))),
            (''count'', Scalar (Integer 0))]]"
    by (elim conjE)
  then have fmt: "format_aggregates
      (empty_placeholder ?dts 0 :: (agg_fn \<times> int list) row list) ''avg'' =
      Inr [[(''time_bucket'', Scalar (Text (split0 (isoformat (midnight 2021 1 1)) ''+''))),
            (''count'', Scalar (Integer 0))]]"
    by simp
  moreover note fmt
  moreover from inst fmt have "length [[(''time_bucket'',
        Scalar (Text (split0 (isoformat (midnight 2021 1 1)) ''+'') :: (agg_fn \<times> int list) cell)),
        (''count'', Scalar (Integer 0))]] =
      length (empty_placeholder ?dts 0 :: (agg_fn \<times> int list) row list)"
    by blast
  ultimately show ?thesis using h0 h1 tz by simp
qed

end
